theory Spec2Isabelle
  imports Complex_Main "HOL-Library.Multiset" "HOL-Library.Word"
begin

section \<open>Python values used by the services\<close>

text \<open>
  The services return Python dict literals. A dict is an association list in insertion
  order; its values are the few Python values the envelopes hold.
\<close>

datatype pyval =
    PBool bool
  | PStr string
  | PInt int
  | PNone
  | PList "pyval list"
  | PDict "(string \<times> pyval) list"

type_synonym envelope = "(string \<times> pyval) list"

text \<open>\<open>d.get(k)\<close>: the value stored under a key, if the key is present.\<close>

definition lookup :: "envelope \<Rightarrow> string \<Rightarrow> pyval option" where
  "lookup d k = map_of d k"

text \<open>
  \<open>if x: ...\<close> on an \<open>Optional[str]\<close> argument: \<open>None\<close> and the empty string are
  false, and then the body is skipped.
\<close>

definition when_truthy :: "string option \<Rightarrow> (string \<Rightarrow> 'a \<Rightarrow> 'a) \<Rightarrow> 'a \<Rightarrow> 'a" where
  "when_truthy x f a = (case x of None \<Rightarrow> a | Some v \<Rightarrow> (if v = [] then a else f v a))"

text \<open>\<open>x or d\<close> on an \<open>Optional[str]\<close>.\<close>

definition or_else :: "string option \<Rightarrow> string \<Rightarrow> string" where
  "or_else x d = (case x of None \<Rightarrow> d | Some v \<Rightarrow> (if v = [] then d else v))"

text \<open>\<open>s.replace('Z', '+00:00')\<close>: every occurrence is replaced.\<close>

fun replace_Z :: "string \<Rightarrow> string" where
  "replace_Z [] = []"
| "replace_Z (c # cs) = (if c = CHR ''Z'' then ''+00:00'' @ replace_Z cs else c # replace_Z cs)"

text \<open>\<open>str(n)\<close> for a length, in decimal.\<close>

fun str_nat :: "nat \<Rightarrow> string" where
  "str_nat n = (if n < 10 then [char_of (48 + n)] else str_nat (n div 10) @ [char_of (48 + n mod 10)])"

declare str_nat.simps [simp del]

text \<open>An f-string field between single quotes: \<open>'{x}'\<close>.\<close>

definition quoted :: "string \<Rightarrow> string" where
  "quoted x = CHR 0x27 # x @ [CHR 0x27]"

section \<open>Task records and the database session\<close>

text \<open>
  A \<open>datetime\<close> has microsecond resolution; it is modelled by its count of microseconds.
  A task id is a UUID, a number of 128 bits. The service receives a task id as text and
  returns it as text; the conversions are collaborators (see \<open>world\<close>).
\<close>

type_synonym datetime = int

type_synonym uuid = "128 word"

record task =
  id' :: uuid
  user_id :: string
  title :: string
  description :: string
  completed :: bool
  priority :: string
  due_date :: "datetime option"
  created_at :: datetime
  updated_at :: datetime

text \<open>
  The session of \<open>create_sync_session\<close>: \<open>committed\<close> are the rows durably in the task
  table, \<open>working\<close> are the rows as the session's open transaction sees them (the committed
  rows with the writes of the current operation applied).
\<close>

record session =
  committed :: "task list"
  working :: "task list"

text \<open>
  What the collaborators of one service call do. None of them is part of the service's
  source, so each is a parameter:
  \<^item> \<open>uuid4\<close>, \<open>str_uuid\<close> (\<open>str(task.id)\<close>), \<open>utcnow\<close> (the successive clock readings of
    the call), \<open>fromisoformat\<close> (\<open>None\<close> when \<open>datetime.fromisoformat\<close> raises) and
    \<open>isoformat\<close>;
  \<^item> \<open>uuid_cast\<close>: the UUID that the comparison \<open>Task.id == task_id\<close> makes of the text
    it is given, or the message of the exception it raises for a text that is no UUID;
    several spellings of one UUID are cast to the same value;
  \<^item> \<open>Task_init\<close>: the message of the exception the \<open>Task\<close> constructor raises for these
    attributes, if it raises (the model class is not part of the service);
  \<^item> \<open>exec_error\<close>, \<open>commit_error\<close>, \<open>refresh_error\<close>, \<open>rollback_error\<close>: the message of
    the exception that \<open>session.exec\<close>, \<open>session.commit\<close> (given the rows to be committed),
    a reload of an object after a commit, and \<open>session.rollback\<close> raise, if they raise;
  \<^item> \<open>reject_limit\<close>: the message of the exception the database raises for this
    \<open>LIMIT\<close>, if it rejects it.
\<close>

record world =
  uuid4 :: uuid
  str_uuid :: "uuid \<Rightarrow> string"
  uuid_cast :: "string \<Rightarrow> string + uuid"
  utcnow :: "nat \<Rightarrow> datetime"
  fromisoformat :: "string \<Rightarrow> datetime option"
  isoformat :: "datetime \<Rightarrow> string"
  Task_init :: "task \<Rightarrow> string option"
  exec_error :: "string option"
  reject_limit :: "int \<Rightarrow> string option"
  commit_error :: "task list \<Rightarrow> string option"
  refresh_error :: "string option"
  rollback_error :: "string option"

text \<open>
  A call during which neither the constructor, nor the query, nor the commit, nor a
  reload raises.
\<close>

definition no_faults :: "world \<Rightarrow> bool" where
  "no_faults w =
     (Task_init w = (\<lambda>t. None) \<and> exec_error w = None \<and>
      commit_error w = (\<lambda>rows. None) \<and> refresh_error w = None)"

text \<open>\<open>session.add\<close> of a new object: an INSERT pending in the transaction.\<close>

definition session_add :: "session \<Rightarrow> task \<Rightarrow> session" where
  "session_add s t = s\<lparr>working := working s @ [t]\<rparr>"

text \<open>
  Attribute assignments on a loaded object, flushed as \<open>UPDATE ... WHERE id = ?\<close>:
  the change \<open>f\<close> reaches the rows with the object's primary key.
\<close>

definition session_modify :: "session \<Rightarrow> uuid \<Rightarrow> (task \<Rightarrow> task) \<Rightarrow> session" where
  "session_modify s k f = s\<lparr>working := map (\<lambda>r. if id' r = k then f r else r) (working s)\<rparr>"

text \<open>\<open>session.delete\<close> of a loaded object: \<open>DELETE ... WHERE id = ?\<close>.\<close>

definition session_delete :: "session \<Rightarrow> uuid \<Rightarrow> session" where
  "session_delete s k = s\<lparr>working := filter (\<lambda>r. id' r \<noteq> k) (working s)\<rparr>"

definition session_commit :: "world \<Rightarrow> session \<Rightarrow> string + session" where
  "session_commit w s =
     (case commit_error w (working s) of
        Some e \<Rightarrow> Inl e
      | None \<Rightarrow> Inr (s\<lparr>committed := working s\<rparr>))"

text \<open>
  \<open>session.rollback()\<close> discards the pending writes, or raises and has discarded
  nothing.
\<close>

definition session_rollback :: "world \<Rightarrow> session \<Rightarrow> string + session" where
  "session_rollback w s =
     (case rollback_error w of
        Some e \<Rightarrow> Inl e
      | None \<Rightarrow> Inr (s\<lparr>working := committed s\<rparr>))"

text \<open>
  A reload of an object after a commit: \<open>session.refresh(task)\<close> in \<open>add_task\<close>, and the
  first read of an attribute of the object after \<open>session.commit()\<close> in \<open>complete_task\<close>
  and \<open>update_task\<close> (the commit expires the loaded attributes). The object is reloaded
  from the row just written from it, so the attributes are the same unless the reload
  raises.
\<close>

definition session_refresh :: "world \<Rightarrow> session \<Rightarrow> task \<Rightarrow> string + task" where
  "session_refresh w s t = (case refresh_error w of Some e \<Rightarrow> Inl e | None \<Rightarrow> Inr t)"

text \<open>
  \<open>select(Task).where(Task.id == task_id, Task.user_id == user_id)\<close> followed by
  \<open>.first()\<close>. The task id arrives as text and is compared as a UUID.
\<close>

definition matches :: "uuid \<Rightarrow> string \<Rightarrow> task \<Rightarrow> bool" where
  "matches u uid t = (id' t = u \<and> user_id t = uid)"

definition select_first :: "world \<Rightarrow> session \<Rightarrow> string \<Rightarrow> string \<Rightarrow> string + task option" where
  "select_first w s tid uid =
     (case exec_error w of
        Some e \<Rightarrow> Inl e
      | None \<Rightarrow>
          (case uuid_cast w tid of
             Inl e \<Rightarrow> Inl e
           | Inr u \<Rightarrow> Inr (find (matches u uid) (working s))))"

section \<open>TaskIntegrationService\<close>

subsection \<open>What a call gives back\<close>

text \<open>A call returns a dict, or an exception leaves it.\<close>

datatype outcome = Returned envelope | Raised string

text \<open>The call returned an envelope whose \<open>success\<close> is true.\<close>

definition succeeded :: "outcome \<Rightarrow> bool" where
  "succeeded r =
     (case r of Returned env \<Rightarrow> lookup env ''success'' = Some (PBool True) | Raised x \<Rightarrow> False)"

text \<open>The call returned an envelope whose \<open>success\<close> is false.\<close>

definition reported_failure :: "outcome \<Rightarrow> bool" where
  "reported_failure r =
     (case r of Returned env \<Rightarrow> lookup env ''success'' = Some (PBool False) | Raised x \<Rightarrow> False)"

definition failed :: "string \<Rightarrow> string \<Rightarrow> envelope" where
  "failed what e =
     [(''success'', PBool False), (''error'', PStr e),
      (''message'', PStr (''Failed to '' @ what @ '': '' @ e))]"

definition not_found :: envelope where
  "not_found =
     [(''success'', PBool False), (''message'', PStr ''Task not found or access denied'')]"

definition added :: "world \<Rightarrow> task \<Rightarrow> string \<Rightarrow> envelope" where
  "added w t ttl =
     [(''success'', PBool True), (''task_id'', PStr (str_uuid w (id' t))),
      (''title'', PStr (title t)),
      (''message'', PStr (''Task '' @ quoted ttl @ '' added successfully''))]"

definition done_envelope :: "string \<Rightarrow> string \<Rightarrow> string \<Rightarrow> envelope" where
  "done_envelope k ttl what =
     [(''success'', PBool True), (''task_id'', PStr k),
      (''message'', PStr (''Task '' @ quoted ttl @ '' '' @ what))]"

text \<open>
  The handler of the mutating operations: \<open>except Exception as e:\<close> calls
  \<open>self.session.rollback()\<close> and returns the failure envelope. The rollback is not
  guarded: when it raises, its exception leaves the operation.
\<close>

definition rollback_and_report :: "world \<Rightarrow> session \<Rightarrow> string \<Rightarrow> string \<Rightarrow> outcome \<times> session" where
  "rollback_and_report w s what e =
     (case session_rollback w s of
        Inl x \<Rightarrow> (Raised x, s)
      | Inr s' \<Rightarrow> (Returned (failed what e), s'))"

subsection \<open>add_task\<close>

text \<open>The due date as the inner \<open>try\<close> leaves it: set when the text parses, else untouched.\<close>

definition parse_due :: "world \<Rightarrow> string \<Rightarrow> task \<Rightarrow> task" where
  "parse_due w v t =
     (case fromisoformat w (replace_Z v) of
        Some d \<Rightarrow> t\<lparr>due_date := Some d\<rparr>
      | None \<Rightarrow> t)"

definition set_due :: "world \<Rightarrow> string option \<Rightarrow> task \<Rightarrow> task" where
  "set_due w due t = when_truthy due (parse_due w) t"

definition new_task :: "world \<Rightarrow> string \<Rightarrow> string \<Rightarrow> string option \<Rightarrow> string option \<Rightarrow> task" where
  "new_task w uid ttl descr prio =
     \<lparr>id' = uuid4 w, user_id = uid, title = ttl, description = or_else descr [],
      completed = False, priority = or_else prio ''medium'', due_date = None,
      created_at = utcnow w 0, updated_at = utcnow w 1\<rparr>"

definition add_task ::
  "world \<Rightarrow> session \<Rightarrow> string \<Rightarrow> string \<Rightarrow> string option \<Rightarrow> string option \<Rightarrow> string option
     \<Rightarrow> outcome \<times> session" where
  "add_task w s uid ttl descr prio due =
     (let t0 = new_task w uid ttl descr prio in
      case Task_init w t0 of
        Some e \<Rightarrow> rollback_and_report w s ''add task'' e
      | None \<Rightarrow>
          (let t1 = set_due w due t0; s1 = session_add s t1 in
           case session_commit w s1 of
             Inl e \<Rightarrow> rollback_and_report w s1 ''add task'' e
           | Inr s2 \<Rightarrow>
               (case session_refresh w s2 t1 of
                  Inl e \<Rightarrow> rollback_and_report w s2 ''add task'' e
                | Inr t2 \<Rightarrow> (Returned (added w t2 ttl), s2))))"

subsection \<open>complete_task\<close>

definition mark_completed :: "world \<Rightarrow> task \<Rightarrow> task" where
  "mark_completed w t = t\<lparr>completed := True, updated_at := utcnow w 0\<rparr>"

definition complete_task :: "world \<Rightarrow> session \<Rightarrow> string \<Rightarrow> string \<Rightarrow> outcome \<times> session" where
  "complete_task w s uid tid =
     (case select_first w s tid uid of
        Inl e \<Rightarrow> rollback_and_report w s ''complete task'' e
      | Inr None \<Rightarrow> (Returned not_found, s)
      | Inr (Some t) \<Rightarrow>
          (let s1 = session_modify s (id' t) (mark_completed w) in
           case session_commit w s1 of
             Inl e \<Rightarrow> rollback_and_report w s1 ''complete task'' e
           | Inr s2 \<Rightarrow>
               (case session_refresh w s2 (mark_completed w t) of
                  Inl e \<Rightarrow> rollback_and_report w s2 ''complete task'' e
                | Inr t2 \<Rightarrow>
                    (Returned (done_envelope (str_uuid w (id' t2)) (title t2)
                                 ''marked as completed''), s2))))"

subsection \<open>list_tasks\<close>

definition task_dict :: "world \<Rightarrow> task \<Rightarrow> pyval" where
  "task_dict w t =
     PDict [(''id'', PStr (str_uuid w (id' t))), (''title'', PStr (title t)),
            (''description'', PStr (description t)), (''completed'', PBool (completed t)),
            (''priority'', PStr (priority t)),
            (''due_date'', (case due_date t of None \<Rightarrow> PNone | Some d \<Rightarrow> PStr (isoformat w d)))]"

text \<open>
  The query of \<open>list_tasks\<close>: the owner's rows, filtered by \<open>completed\<close> when the filter
  is given, \<open>ORDER BY created_at DESC\<close> (rows created at the same instant keep their
  table order), \<open>LIMIT limit\<close>. The limit is the integer the caller gives. A limit that
  the database accepts bounds the number of rows when it is not negative, and bounds
  nothing when it is negative.
\<close>

definition order_by_created_desc :: "task list \<Rightarrow> task list" where
  "order_by_created_desc rows = sort_key (\<lambda>t. - created_at t) rows"

definition list_query :: "session \<Rightarrow> string \<Rightarrow> bool option \<Rightarrow> int \<Rightarrow> task list" where
  "list_query s uid flt limit =
     (let owned = filter (\<lambda>t. user_id t = uid) (working s);
          wanted = (case flt of None \<Rightarrow> owned | Some c \<Rightarrow> filter (\<lambda>t. completed t = c) owned);
          ordered = order_by_created_desc wanted
      in if limit < 0 then ordered else take (nat limit) ordered)"

text \<open>The rows a call asks for: the owner's, with the given completion state if any.\<close>

definition wanted :: "string \<Rightarrow> bool option \<Rightarrow> task \<Rightarrow> bool" where
  "wanted uid flt t =
     (user_id t = uid \<and> (case flt of None \<Rightarrow> True | Some c \<Rightarrow> completed t = c))"

definition listed :: "pyval list \<Rightarrow> envelope" where
  "listed task_list =
     [(''success'', PBool True), (''tasks'', PList task_list),
      (''count'', PInt (int (length task_list))),
      (''message'', PStr (''Found '' @ str_nat (length task_list) @ '' tasks''))]"

text \<open>The handler of \<open>list_tasks\<close> returns the failure envelope without a rollback.\<close>

definition list_tasks :: "world \<Rightarrow> session \<Rightarrow> string \<Rightarrow> bool option \<Rightarrow> int \<Rightarrow> outcome \<times> session" where
  "list_tasks w s uid flt limit =
     (case exec_error w of
        Some e \<Rightarrow> (Returned (failed ''list tasks'' e), s)
      | None \<Rightarrow>
          (case reject_limit w limit of
             Some e \<Rightarrow> (Returned (failed ''list tasks'' e), s)
           | None \<Rightarrow> (Returned (listed (map (task_dict w) (list_query s uid flt limit))), s)))"

subsection \<open>update_task\<close>

definition update_fields ::
  "world \<Rightarrow> string option \<Rightarrow> string option \<Rightarrow> string option \<Rightarrow> string option \<Rightarrow> task \<Rightarrow> task" where
  "update_fields w ttl descr prio due t =
     (let t1 = when_truthy ttl (\<lambda>v r. r\<lparr>title := v\<rparr>) t;
          t2 = when_truthy descr (\<lambda>v r. r\<lparr>description := v\<rparr>) t1;
          t3 = when_truthy prio (\<lambda>v r. r\<lparr>priority := v\<rparr>) t2;
          t4 = set_due w due t3
      in t4\<lparr>updated_at := utcnow w 0\<rparr>)"

definition update_task ::
  "world \<Rightarrow> session \<Rightarrow> string \<Rightarrow> string \<Rightarrow> string option \<Rightarrow> string option \<Rightarrow> string option
     \<Rightarrow> string option \<Rightarrow> outcome \<times> session" where
  "update_task w s uid tid ttl descr prio due =
     (case select_first w s tid uid of
        Inl e \<Rightarrow> rollback_and_report w s ''update task'' e
      | Inr None \<Rightarrow> (Returned not_found, s)
      | Inr (Some t) \<Rightarrow>
          (let s1 = session_modify s (id' t) (update_fields w ttl descr prio due) in
           case session_commit w s1 of
             Inl e \<Rightarrow> rollback_and_report w s1 ''update task'' e
           | Inr s2 \<Rightarrow>
               (case session_refresh w s2 (update_fields w ttl descr prio due t) of
                  Inl e \<Rightarrow> rollback_and_report w s2 ''update task'' e
                | Inr t2 \<Rightarrow>
                    (Returned (done_envelope (str_uuid w (id' t2)) (title t2)
                                 ''updated successfully''), s2))))"

subsection \<open>delete_task\<close>

text \<open>
  The title is read before the delete and the envelope carries the \<open>task_id\<close> text of
  the caller, so nothing is reloaded after the commit.
\<close>

definition delete_task :: "world \<Rightarrow> session \<Rightarrow> string \<Rightarrow> string \<Rightarrow> outcome \<times> session" where
  "delete_task w s uid tid =
     (case select_first w s tid uid of
        Inl e \<Rightarrow> rollback_and_report w s ''delete task'' e
      | Inr None \<Rightarrow> (Returned not_found, s)
      | Inr (Some t) \<Rightarrow>
          (let s1 = session_delete s (id' t) in
           case session_commit w s1 of
             Inl e \<Rightarrow> rollback_and_report w s1 ''delete task'' e
           | Inr s2 \<Rightarrow> (Returned (done_envelope tid (title t) ''deleted successfully''), s2)))"

section \<open>The chat endpoint\<close>

subsection \<open>Conversations and messages\<close>

record conversation =
  conv_id :: int
  conv_user_id :: string
  conv_created_at :: datetime
  conv_updated_at :: datetime

record chat_message =
  msg_id :: int
  msg_conversation_id :: int
  role :: string
  content :: string
  msg_created_at :: datetime

record chat_store =
  conversations :: "conversation list"
  messages :: "chat_message list"

text \<open>
  The errors of \<open>core.errors\<close> that the endpoint sees, an exception that is or is not a
  \<open>ChatbotError\<close>, and what the endpoint raises to the transport:
  \<open>chatbot_exception_to_http(e)\<close> or the status 500 with its detail.
\<close>

datatype chatbot_error = InvalidMessageError string | NotFoundError string

datatype exn = ChatbotError chatbot_error | OtherException string

datatype http_exception = FromChatbotError chatbot_error | InternalServerError string

text \<open>An id generated by the store: one more than the largest id in use.\<close>

definition fresh_id :: "int list \<Rightarrow> int" where
  "fresh_id used = 1 + foldr max used 0"

text \<open>
  Modelled from the spec: \<open>ChatService.create_conversation\<close> is not part of the sources.
  With no conversation id, \<open>get_or_create\<close> creates a new conversation owned by the caller.
\<close>

definition create_conversation :: "datetime \<Rightarrow> chat_store \<Rightarrow> string \<Rightarrow> conversation \<times> chat_store" where
  "create_conversation now st uid =
     (let c = \<lparr>conv_id = fresh_id (map conv_id (conversations st)), conv_user_id = uid,
                conv_created_at = now, conv_updated_at = now\<rparr>
      in (c, st\<lparr>conversations := conversations st @ [c]\<rparr>))"

text \<open>
  Modelled from the spec: \<open>ChatService.get_conversation\<close> is not part of the sources.
  With a conversation id, \<open>get_or_create\<close> fails with \<open>NotFoundError\<close> unless the
  conversation exists and is owned by the caller.
\<close>

definition get_conversation :: "chat_store \<Rightarrow> int \<Rightarrow> string \<Rightarrow> chatbot_error + conversation" where
  "get_conversation st cid uid =
     (case find (\<lambda>c. conv_id c = cid \<and> conv_user_id c = uid) (conversations st) of
        None \<Rightarrow> Inl (NotFoundError ''Conversation not found'')
      | Some c \<Rightarrow> Inr c)"

text \<open>
  Modelled from the spec: \<open>ChatService.add_message\<close> is not part of the sources.
  \<open>append_message\<close> appends one message with the given role and content and updates
  the conversation's last-updated timestamp.
\<close>

definition add_message :: "datetime \<Rightarrow> chat_store \<Rightarrow> int \<Rightarrow> string \<Rightarrow> string \<Rightarrow> chat_store" where
  "add_message now st cid r txt =
     st\<lparr>conversations :=
          map (\<lambda>c. if conv_id c = cid then c\<lparr>conv_updated_at := now\<rparr> else c) (conversations st),
        messages :=
          messages st @
            [\<lparr>msg_id = fresh_id (map msg_id (messages st)), msg_conversation_id = cid,
              role = r, content = txt, msg_created_at = now\<rparr>]\<rparr>"

text \<open>
  Modelled from the spec: \<open>ChatService.get_conversation_history\<close> is not part of the
  sources. \<open>history\<close> returns the \<open>limit\<close> most recent messages of the conversation,
  oldest first, each as its role and content.
\<close>

definition get_conversation_history :: "chat_store \<Rightarrow> int \<Rightarrow> nat \<Rightarrow> (string \<times> string) list" where
  "get_conversation_history st cid limit =
     (let ms = filter (\<lambda>m. msg_conversation_id m = cid) (messages st)
      in map (\<lambda>m. (role m, content m)) (drop (length ms - limit) ms))"

subsection \<open>Request, agent result and response\<close>

text \<open>
  The request as \<open>chat\<close> receives it. The length bounds that the request model puts on
  the message are checked by the transport before \<open>chat\<close> is called; \<open>chat\<close> makes its
  own check of the message.
\<close>

record chat_request =
  conversation_id :: "int option"
  message :: string

record tool_call =
  tool :: string
  arguments :: envelope
  result :: envelope

record ai_result =
  response :: string
  tool_calls :: "tool_call list"
  response_time :: real

record chat_response =
  r_conversation_id :: int
  r_response :: string
  r_tool_calls :: "tool_call list"
  r_response_time :: real

text \<open>
  The collaborators of one turn: the agent (\<open>AIAgentService.process_message\<close>, which
  returns its result or raises), the readings of \<open>time.time()\<close> at the start and at the
  end of the turn, and the timestamps the store gives to what it creates. The agent's
  tool calls are records with the three fields of \<open>ToolCall\<close>, so building the response
  from them does not fail. The calls of \<open>chat_logger\<close> write log lines only and are
  left out.
\<close>

record chat_world =
  process_message :: "string \<Rightarrow> (string \<times> string) list \<Rightarrow> string \<Rightarrow> exn + ai_result"
  start_time :: real
  end_time :: real
  stamp :: "nat \<Rightarrow> datetime"

subsection \<open>chat\<close>

text \<open>
  \<open>str.strip()\<close> removes leading and trailing whitespace. A character is its code point
  below 256; the whitespace there is 9 to 13, 28 to 32, 133 and 160.
\<close>

definition is_space :: "char \<Rightarrow> bool" where
  "is_space c =
     (let n = (of_char c :: nat)
      in (9 \<le> n \<and> n \<le> 13) \<or> (28 \<le> n \<and> n \<le> 32) \<or> n = 133 \<or> n = 160)"

definition strip :: "string \<Rightarrow> string" where
  "strip x = rev (dropWhile is_space (rev (dropWhile is_space x)))"

text \<open>\<open>not request.message or len(request.message.strip()) == 0\<close>\<close>

definition blank :: "string \<Rightarrow> bool" where
  "blank x = (x = [] \<or> length (strip x) = 0)"

text \<open>
  Get or create the conversation: \<open>if request.conversation_id:\<close> is false for \<open>None\<close>
  and for the id 0.
\<close>

definition resolve_conversation ::
  "chat_world \<Rightarrow> chat_store \<Rightarrow> string \<Rightarrow> chat_request \<Rightarrow> chatbot_error + conversation \<times> chat_store" where
  "resolve_conversation w st uid req =
     (case conversation_id req of
        Some cid \<Rightarrow>
          (if cid \<noteq> 0 then
             (case get_conversation st cid uid of Inl e \<Rightarrow> Inl e | Inr c \<Rightarrow> Inr (c, st))
           else Inr (create_conversation (stamp w 0) st uid))
      | None \<Rightarrow> Inr (create_conversation (stamp w 0) st uid))"

definition save_response :: "chat_world \<Rightarrow> chat_store \<Rightarrow> int \<Rightarrow> ai_result \<Rightarrow> chat_store" where
  "save_response w st cid ai =
     (if response ai \<noteq> [] then add_message (stamp w 2) st cid ''assistant'' (response ai)
      else st)"

definition chat ::
  "chat_world \<Rightarrow> chat_store \<Rightarrow> string \<Rightarrow> chat_request \<Rightarrow> (http_exception + chat_response) \<times> chat_store" where
  "chat w st uid req =
     (if blank (message req) then
        (Inl (FromChatbotError (InvalidMessageError ''Message cannot be empty'')), st)
      else
        (case resolve_conversation w st uid req of
           Inl e \<Rightarrow> (Inl (FromChatbotError e), st)
         | Inr (conv, st1) \<Rightarrow>
             (let st2 = add_message (stamp w 1) st1 (conv_id conv) ''user'' (message req);
                  history = get_conversation_history st2 (conv_id conv) 20
              in case process_message w (message req) history uid of
                   Inl (ChatbotError e) \<Rightarrow> (Inl (FromChatbotError e), st2)
                 | Inl (OtherException e) \<Rightarrow>
                     (Inl (InternalServerError (''An error occurred: '' @ e)), st2)
                 | Inr ai \<Rightarrow>
                     (Inr \<lparr>r_conversation_id = conv_id conv, r_response = response ai,
                           r_tool_calls = tool_calls ai,
                           r_response_time = end_time w - start_time w\<rparr>,
                      save_response w st2 (conv_id conv) ai))))"

section \<open>Concrete worlds and sessions\<close>

text \<open>
  Task ids as text: the canonical text ends in a lower-case digit; the same UUID may be
  spelt with the upper-case digit. The cast below accepts these texts and rejects every
  other text, as the cast of a text that is no UUID does.
\<close>

definition uuid_text :: "char \<Rightarrow> string" where
  "uuid_text c = ''00000000-0000-0000-0000-00000000000'' @ [c]"

definition demo_cast :: "string \<Rightarrow> string + uuid" where
  "demo_cast x =
     (if x = uuid_text CHR ''a'' \<or> x = uuid_text CHR ''A'' then Inr 0xa
      else if x = uuid_text CHR ''b'' \<or> x = uuid_text CHR ''B'' then Inr 0xb
      else if x = uuid_text CHR ''c'' \<or> x = uuid_text CHR ''C'' then Inr 0xc
      else if x = uuid_text CHR ''d'' \<or> x = uuid_text CHR ''D'' then Inr 0xd
      else if x = uuid_text CHR ''e'' \<or> x = uuid_text CHR ''E'' then Inr 0xe
      else Inl ''badly formed hexadecimal UUID string'')"

definition demo_str :: "uuid \<Rightarrow> string" where
  "demo_str u =
     (if u = 0xa then uuid_text CHR ''a'' else if u = 0xb then uuid_text CHR ''b''
      else if u = 0xc then uuid_text CHR ''c'' else if u = 0xd then uuid_text CHR ''d''
      else uuid_text CHR ''e'')"

text \<open>
  A world in which nothing raises, one date text parses, and every limit is accepted.
\<close>

definition quiet_world :: world where
  "quiet_world =
     \<lparr>uuid4 = 0xd, str_uuid = demo_str, uuid_cast = demo_cast,
      utcnow = (\<lambda>k. 1000 + int k),
      fromisoformat = (\<lambda>x. if x = ''2026-01-01'' then Some 77 else None),
      isoformat = (\<lambda>d. ''iso''), Task_init = (\<lambda>t. None), exec_error = None,
      reject_limit = (\<lambda>n. None), commit_error = (\<lambda>rows. None), refresh_error = None,
      rollback_error = None\<rparr>"

text \<open>A world whose \<open>Task\<close> constructor rejects an empty title.\<close>

definition strict_world :: world where
  "strict_world =
     quiet_world\<lparr>Task_init := (\<lambda>t. if title t = [] then Some ''title is empty'' else None)\<rparr>"

text \<open>A world whose reload after the commit raises.\<close>

definition lost_world :: world where
  "lost_world = quiet_world\<lparr>refresh_error := Some ''connection lost''\<rparr>"

text \<open>Worlds whose commit, query or rollback raises, and one that rejects a negative limit.\<close>

definition full_world :: world where
  "full_world = quiet_world\<lparr>commit_error := (\<lambda>rows. Some ''disk full'')\<rparr>"

definition down_world :: world where
  "down_world = quiet_world\<lparr>exec_error := Some ''database is down''\<rparr>"

definition stuck_world :: world where
  "stuck_world = down_world\<lparr>rollback_error := Some ''cannot roll back''\<rparr>"


definition empty_session :: session where
  "empty_session = \<lparr>committed = [], working = []\<rparr>"

definition milk :: task where
  "milk =
     \<lparr>id' = 0xa, user_id = ''u1'', title = ''buy milk'', description = ''2 litres'',
      completed = False, priority = ''medium'', due_date = Some 50, created_at = 10,
      updated_at = 10\<rparr>"

definition rent :: task where
  "rent =
     \<lparr>id' = 0xb, user_id = ''u2'', title = ''pay rent'', description = [],
      completed = True, priority = ''high'', due_date = None, created_at = 20,
      updated_at = 25\<rparr>"

definition walk :: task where
  "walk =
     \<lparr>id' = 0xc, user_id = ''u1'', title = ''walk dog'', description = [],
      completed = True, priority = ''low'', due_date = None, created_at = 30,
      updated_at = 30\<rparr>"

definition some_session :: session where
  "some_session = \<lparr>committed = [milk, rent, walk], working = [milk, rent, walk]\<rparr>"

text \<open>
  Two agents, one that answers and one that returns an empty response with a tool call,
  an empty store, a request, and the conversation the store creates first. \<open>shown\<close> is
  what a message says: its conversation, role and content.
\<close>

definition echo_world :: chat_world where
  "echo_world =
     \<lparr>process_message = (\<lambda>m h u. Inr \<lparr>response = ''Done: '' @ m, tool_calls = [], response_time = 1\<rparr>),
      start_time = 5, end_time = 7, stamp = (\<lambda>k. 100 + int k)\<rparr>"

definition mute_world :: chat_world where
  "mute_world =
     \<lparr>process_message =
        (\<lambda>m h u. Inr \<lparr>response = [],
                        tool_calls = [\<lparr>tool = ''list_tasks'', arguments = [], result = not_found\<rparr>],
                        response_time = 1\<rparr>),
      start_time = 5, end_time = 7, stamp = (\<lambda>k. 100 + int k)\<rparr>"

definition empty_store :: chat_store where
  "empty_store = \<lparr>conversations = [], messages = []\<rparr>"

definition shown :: "chat_message \<Rightarrow> int \<times> string \<times> string" where
  "shown m = (msg_conversation_id m, role m, content m)"

definition hi :: chat_request where
  "hi = \<lparr>conversation_id = None, message = ''hi''\<rparr>"

definition first_conversation :: conversation where
  "first_conversation =
     \<lparr>conv_id = 1, conv_user_id = ''u1'', conv_created_at = 100, conv_updated_at = 100\<rparr>"

section \<open>The operations, case by case\<close>

text \<open>The handler, and each operation written out over the session's two row lists.\<close>

lemma session_both:
  "(s :: session)\<lparr>working := x, committed := y\<rparr> = \<lparr>committed = y, working = x\<rparr>"
  by (cases s) simp

lemma rollback_and_report_cases:
  "rollback_and_report w s what e =
     (case rollback_error w of
        None \<Rightarrow> (Returned (failed what e), s\<lparr>working := committed s\<rparr>)
      | Some x \<Rightarrow> (Raised x, s))"
  by (simp add: rollback_and_report_def session_rollback_def split: option.splits)

lemma rollback_and_report_ok:
  "rollback_error w = None
     \<Longrightarrow> rollback_and_report w s what e = (Returned (failed what e), s\<lparr>working := committed s\<rparr>)"
  by (simp add: rollback_and_report_cases)

lemma add_task_cases:
  "add_task w s uid ttl descr prio due =
     (let t0 = new_task w uid ttl descr prio; t1 = set_due w due t0 in
      case Task_init w t0 of
        Some e \<Rightarrow> rollback_and_report w s ''add task'' e
      | None \<Rightarrow>
          (case commit_error w (working s @ [t1]) of
             Some e \<Rightarrow> rollback_and_report w (s\<lparr>working := working s @ [t1]\<rparr>) ''add task'' e
           | None \<Rightarrow>
               (case refresh_error w of
                  Some e \<Rightarrow>
                    rollback_and_report w
                      \<lparr>committed = working s @ [t1], working = working s @ [t1]\<rparr> ''add task'' e
                | None \<Rightarrow>
                    (Returned (added w t1 ttl),
                     \<lparr>committed = working s @ [t1], working = working s @ [t1]\<rparr>))))"
  by (simp add: add_task_def Let_def session_commit_def session_add_def session_refresh_def
      session_both split: option.splits)

lemma title_set_due: "title (set_due w due t) = title t"
  by (simp add: set_due_def when_truthy_def parse_due_def split: option.splits)

lemma select_first_cases:
  "select_first w s tid uid =
     (case exec_error w of
        Some e \<Rightarrow> Inl e
      | None \<Rightarrow>
          (case uuid_cast w tid of
             Inl e \<Rightarrow> Inl e
           | Inr u \<Rightarrow> Inr (find (matches u uid) (working s))))"
  by (simp add: select_first_def)

lemma select_first_found:
  "exec_error w = None \<Longrightarrow> uuid_cast w tid = Inr u
     \<Longrightarrow> select_first w s tid uid = Inr (find (matches u uid) (working s))"
  by (simp add: select_first_def)


lemma find_matches_Some:
  "find (matches u uid) rows = Some t \<Longrightarrow> id' t = u \<and> user_id t = uid \<and> t \<in> set rows"
  by (auto simp: find_Some_iff matches_def)

lemma complete_task_cases:
  "complete_task w s uid tid =
     (case select_first w s tid uid of
        Inl e \<Rightarrow> rollback_and_report w s ''complete task'' e
      | Inr None \<Rightarrow> (Returned not_found, s)
      | Inr (Some t) \<Rightarrow>
          (let rows = map (\<lambda>r. if id' r = id' t then mark_completed w r else r) (working s) in
           case commit_error w rows of
             Some e \<Rightarrow> rollback_and_report w (s\<lparr>working := rows\<rparr>) ''complete task'' e
           | None \<Rightarrow>
               (case refresh_error w of
                  Some e \<Rightarrow>
                    rollback_and_report w \<lparr>committed = rows, working = rows\<rparr> ''complete task'' e
                | None \<Rightarrow>
                    (Returned (done_envelope (str_uuid w (id' t)) (title t) ''marked as completed''),
                     \<lparr>committed = rows, working = rows\<rparr>))))"
  by (simp add: complete_task_def session_modify_def session_commit_def session_refresh_def
      mark_completed_def Let_def session_both split: sum.splits option.splits)

lemma update_task_cases:
  "update_task w s uid tid ttl descr prio due =
     (case select_first w s tid uid of
        Inl e \<Rightarrow> rollback_and_report w s ''update task'' e
      | Inr None \<Rightarrow> (Returned not_found, s)
      | Inr (Some t) \<Rightarrow>
          (let rows = map (\<lambda>r. if id' r = id' t then update_fields w ttl descr prio due r else r)
                        (working s) in
           case commit_error w rows of
             Some e \<Rightarrow> rollback_and_report w (s\<lparr>working := rows\<rparr>) ''update task'' e
           | None \<Rightarrow>
               (case refresh_error w of
                  Some e \<Rightarrow>
                    rollback_and_report w \<lparr>committed = rows, working = rows\<rparr> ''update task'' e
                | None \<Rightarrow>
                    (Returned (done_envelope (str_uuid w (id' (update_fields w ttl descr prio due t)))
                                 (title (update_fields w ttl descr prio due t))
                                 ''updated successfully''),
                     \<lparr>committed = rows, working = rows\<rparr>))))"
  by (simp add: update_task_def session_modify_def session_commit_def session_refresh_def
      Let_def session_both split: sum.splits option.splits)

lemma delete_task_cases:
  "delete_task w s uid tid =
     (case select_first w s tid uid of
        Inl e \<Rightarrow> rollback_and_report w s ''delete task'' e
      | Inr None \<Rightarrow> (Returned not_found, s)
      | Inr (Some t) \<Rightarrow>
          (let rows = filter (\<lambda>r. id' r \<noteq> id' t) (working s) in
           case commit_error w rows of
             Some e \<Rightarrow> rollback_and_report w (s\<lparr>working := rows\<rparr>) ''delete task'' e
           | None \<Rightarrow>
               (Returned (done_envelope tid (title t) ''deleted successfully''),
                \<lparr>committed = rows, working = rows\<rparr>)))"
  by (simp add: delete_task_def session_delete_def session_commit_def Let_def session_both
      split: sum.splits option.splits)

lemma failed_shape:
  "map fst (failed what e) = [''success'', ''error'', ''message'']"
  "lookup (failed what e) ''success'' = Some (PBool False)"
  "lookup (failed what e) ''error'' = Some (PStr e)"
  "lookup (failed what e) ''message'' = Some (PStr (''Failed to '' @ what @ '': '' @ e))"
  by (simp_all add: failed_def lookup_def)

lemma not_found_shape:
  "map fst not_found = [''success'', ''message'']"
  "lookup not_found ''success'' = Some (PBool False)"
  "lookup not_found ''error'' = None"
  "lookup not_found ''message'' = Some (PStr ''Task not found or access denied'')"
  by (simp_all add: not_found_def lookup_def)


lemma success_envelopes:
  "lookup (added w t ttl) ''success'' = Some (PBool True)"
  "lookup (done_envelope k ttl x) ''success'' = Some (PBool True)"
  "lookup (listed ts) ''success'' = Some (PBool True)"
  by (simp_all add: added_def done_envelope_def listed_def lookup_def)

lemma succeeded_simps:
  "succeeded (Returned (added w t ttl))" "succeeded (Returned (done_envelope k ttl x))"
  "succeeded (Returned (listed ts))" "\<not> succeeded (Returned (failed what e))"
  "\<not> succeeded (Returned not_found)" "\<not> succeeded (Raised z)"
  by (simp_all add: succeeded_def success_envelopes failed_shape not_found_shape)

lemma reported_failure_simps:
  "\<not> reported_failure (Returned (added w t ttl))"
  "\<not> reported_failure (Returned (done_envelope k ttl x))"
  "\<not> reported_failure (Returned (listed ts))" "reported_failure (Returned (failed what e))"
  "reported_failure (Returned not_found)" "\<not> reported_failure (Raised z)"
  by (simp_all add: reported_failure_def success_envelopes failed_shape not_found_shape)

lemma not_succeeded_report: "\<not> succeeded (fst (rollback_and_report w s what e))"
  by (simp add: rollback_and_report_cases succeeded_simps split: option.splits)

lemma no_faults_simps:
  assumes "no_faults w"
  shows "Task_init w t = None" "exec_error w = None" "commit_error w rows = None"
    "refresh_error w = None"
  using assms by (simp_all add: no_faults_def)

lemma quiet_no_faults: "no_faults quiet_world"
  by (simp add: no_faults_def quiet_world_def)

lemma quiet_exec: "exec_error quiet_world = None"
  by (simp add: quiet_world_def)

lemma quiet_commit: "commit_error quiet_world rows = None"
  by (simp add: quiet_world_def)

lemma quiet_refresh: "refresh_error quiet_world = None"
  by (simp add: quiet_world_def)

lemma quiet_rollback: "rollback_error quiet_world = None"
  by (simp add: quiet_world_def)

lemma quiet_cast:
  "uuid_cast quiet_world (uuid_text CHR ''a'') = Inr 0xa"
  "uuid_cast quiet_world (uuid_text CHR ''A'') = Inr 0xa"
  "uuid_cast quiet_world (uuid_text CHR ''b'') = Inr 0xb"
  "uuid_cast quiet_world (uuid_text CHR ''e'') = Inr 0xe"
  "uuid_cast quiet_world ''buy-milk'' = Inl ''badly formed hexadecimal UUID string''"
  by (simp_all add: quiet_world_def demo_cast_def uuid_text_def)

lemma find_milk: "find (matches 0xa ''u1'') (working some_session) = Some milk"
  by (simp add: some_session_def matches_def milk_def)

section \<open>Creating a task with an empty title\<close>

text \<open>
  C1 (as the code has it). \<open>add_task\<close> does not look at the title. With an empty title it
  succeeds exactly when neither the \<open>Task\<close> constructor, nor the commit, nor the reload
  raises; it returns the failure envelope exactly when one of them raises (the rollback
  of the handler not raising in its turn); and when the constructor and the commit
  accept, a task with the empty title is stored.
\<close>

theorem add_task_empty_title:
  "(succeeded (fst (add_task w s uid [] descr prio due))
      \<longleftrightarrow> (Task_init w (new_task w uid [] descr prio) = None
           \<and> commit_error w (working s @ [set_due w due (new_task w uid [] descr prio)]) = None
           \<and> refresh_error w = None))
   \<and> (rollback_error w = None
      \<longrightarrow> (reported_failure (fst (add_task w s uid [] descr prio due))
           \<longleftrightarrow> (Task_init w (new_task w uid [] descr prio) \<noteq> None
                \<or> commit_error w (working s @ [set_due w due (new_task w uid [] descr prio)])
                    \<noteq> None
                \<or> refresh_error w \<noteq> None)))
   \<and> (Task_init w (new_task w uid [] descr prio) = None
        \<and> commit_error w (working s @ [set_due w due (new_task w uid [] descr prio)]) = None
      \<longrightarrow> committed (snd (add_task w s uid [] descr prio due))
            = working s @ [set_due w due (new_task w uid [] descr prio)]
          \<and> title (last (committed (snd (add_task w s uid [] descr prio due)))) = [])"
proof -
  have "title (set_due w due (new_task w uid [] descr prio)) = []"
    by (simp add: title_set_due new_task_def)
  then show ?thesis
    by (auto simp: add_task_cases Let_def rollback_and_report_cases succeeded_simps
        reported_failure_simps split: option.splits)
qed

theorem add_task_empty_title_witness:
  "committed (snd (add_task quiet_world empty_session ''u1'' [] None None None))
     = [new_task quiet_world ''u1'' [] None None]
   \<and> title (last (committed (snd (add_task quiet_world empty_session ''u1'' [] None None None)))) = []
   \<and> reported_failure (fst (add_task strict_world some_session ''u1'' [] None None None))"
  using add_task_empty_title [where w = quiet_world and s = empty_session and uid = "''u1''"
      and descr = None and prio = None and due = None]
    add_task_empty_title [where w = strict_world and s = some_session and uid = "''u1''"
      and descr = None and prio = None and due = None]
  by (simp add: quiet_world_def strict_world_def empty_session_def set_due_def when_truthy_def
      new_task_def)

text \<open>
  The claim as stated fails where nothing raises: the call succeeds and the stored task
  has the empty title.
\<close>

theorem add_task_empty_title_counterexample:
  "succeeded (fst (add_task quiet_world empty_session ''u1'' [] None None None))
   \<and> map title (committed (snd (add_task quiet_world empty_session ''u1'' [] None None None)))
     = [[]]"
  by (simp add: add_task_cases quiet_world_def empty_session_def Let_def succeeded_simps
      set_due_def when_truthy_def new_task_def)

section \<open>Lookups that match no task\<close>



lemma lookup_raised:
  assumes "exec_error w = Some e \<or> (exec_error w = None \<and> uuid_cast w tid = Inl e)"
    and "rollback_error w = None"
  shows "complete_task w s uid tid
           = (Returned (failed ''complete task'' e), s\<lparr>working := committed s\<rparr>)"
    and "update_task w s uid tid ttl descr prio due
           = (Returned (failed ''update task'' e), s\<lparr>working := committed s\<rparr>)"
    and "delete_task w s uid tid
           = (Returned (failed ''delete task'' e), s\<lparr>working := committed s\<rparr>)"
proof -
  have sel: "select_first w s tid uid = Inl e"
    using assms(1) by (auto simp: select_first_cases)
  show "complete_task w s uid tid
           = (Returned (failed ''complete task'' e), s\<lparr>working := committed s\<rparr>)"
    by (simp add: complete_task_cases sel rollback_and_report_ok [OF assms(2)])
  show "update_task w s uid tid ttl descr prio due
           = (Returned (failed ''update task'' e), s\<lparr>working := committed s\<rparr>)"
    by (simp add: update_task_cases sel rollback_and_report_ok [OF assms(2)])
  show "delete_task w s uid tid
           = (Returned (failed ''delete task'' e), s\<lparr>working := committed s\<rparr>)"
    by (simp add: delete_task_cases sel rollback_and_report_ok [OF assms(2)])
qed





section \<open>Failures become envelopes, and what is rolled back\<close>

lemma add_task_outcome:
  assumes "rollback_error w = None"
  shows "\<exists>env. fst (add_task w s uid ttl descr prio due) = Returned env
           \<and> (lookup env ''success'' = Some (PBool True) \<or> (\<exists>x. env = failed ''add task'' x))"
  using assms
  by (auto simp: add_task_cases Let_def rollback_and_report_ok success_envelopes
      split: option.splits)

lemma complete_task_outcome:
  assumes "rollback_error w = None"
  shows "\<exists>env. fst (complete_task w s uid tid) = Returned env
           \<and> (lookup env ''success'' = Some (PBool True) \<or> env = not_found
              \<or> (\<exists>x. env = failed ''complete task'' x))"
  using assms
  by (auto simp: complete_task_cases Let_def rollback_and_report_ok success_envelopes
      split: option.splits sum.splits)

lemma update_task_outcome:
  assumes "rollback_error w = None"
  shows "\<exists>env. fst (update_task w s uid tid ttl descr prio due) = Returned env
           \<and> (lookup env ''success'' = Some (PBool True) \<or> env = not_found
              \<or> (\<exists>x. env = failed ''update task'' x))"
  using assms
  by (auto simp: update_task_cases Let_def rollback_and_report_ok success_envelopes
      split: option.splits sum.splits)

lemma delete_task_outcome:
  assumes "rollback_error w = None"
  shows "\<exists>env. fst (delete_task w s uid tid) = Returned env
           \<and> (lookup env ''success'' = Some (PBool True) \<or> env = not_found
              \<or> (\<exists>x. env = failed ''delete task'' x))"
  using assms
  by (auto simp: delete_task_cases Let_def rollback_and_report_ok success_envelopes
      split: option.splits sum.splits)

lemma list_tasks_outcome:
  "(\<exists>env. fst (list_tasks w s uid flt limit) = Returned env
      \<and> (lookup env ''success'' = Some (PBool True) \<or> (\<exists>x. env = failed ''list tasks'' x)))
   \<and> snd (list_tasks w s uid flt limit) = s"
  by (auto simp: list_tasks_def success_envelopes split: option.splits)

lemma list_tasks_raised:
  assumes "exec_error w = Some e \<or> (exec_error w = None \<and> reject_limit w limit = Some e)"
  shows "list_tasks w s uid flt limit = (Returned (failed ''list tasks'' e), s)"
  using assms by (auto simp: list_tasks_def)

lemma add_task_raised:
  assumes "Task_init w (new_task w uid ttl descr prio) = Some e
           \<or> (Task_init w (new_task w uid ttl descr prio) = None
              \<and> commit_error w (working s @ [set_due w due (new_task w uid ttl descr prio)]) = Some e)"
    and "rollback_error w = None"
  shows "add_task w s uid ttl descr prio due
           = (Returned (failed ''add task'' e), s\<lparr>working := committed s\<rparr>)"
  using assms by (auto simp: add_task_cases Let_def rollback_and_report_ok)

lemma commit_raised:
  assumes "exec_error w = None" and "uuid_cast w tid = Inr u"
    and "find (matches u uid) (working s) = Some t"
    and "rollback_error w = None"
  shows "commit_error w (map (\<lambda>r. if id' r = u then mark_completed w r else r) (working s)) = Some e
           \<Longrightarrow> complete_task w s uid tid
               = (Returned (failed ''complete task'' e), s\<lparr>working := committed s\<rparr>)"
    and "commit_error w (map (\<lambda>r. if id' r = u then update_fields w ttl descr prio due r else r)
            (working s)) = Some e
           \<Longrightarrow> update_task w s uid tid ttl descr prio due
               = (Returned (failed ''update task'' e), s\<lparr>working := committed s\<rparr>)"
    and "commit_error w (filter (\<lambda>r. id' r \<noteq> u) (working s)) = Some e
           \<Longrightarrow> delete_task w s uid tid
               = (Returned (failed ''delete task'' e), s\<lparr>working := committed s\<rparr>)"
proof -
  have sel: "select_first w s tid uid = Inr (Some t)"
    by (simp add: select_first_found [OF assms(1,2)] assms(3))
  have k: "id' t = u"
    using assms(3) by (simp add: find_matches_Some)
  show "commit_error w (map (\<lambda>r. if id' r = u then mark_completed w r else r) (working s)) = Some e
           \<Longrightarrow> complete_task w s uid tid
               = (Returned (failed ''complete task'' e), s\<lparr>working := committed s\<rparr>)"
    by (simp add: complete_task_cases sel k Let_def rollback_and_report_ok [OF assms(4)])
  show "commit_error w (map (\<lambda>r. if id' r = u then update_fields w ttl descr prio due r else r)
            (working s)) = Some e
           \<Longrightarrow> update_task w s uid tid ttl descr prio due
               = (Returned (failed ''update task'' e), s\<lparr>working := committed s\<rparr>)"
    by (simp add: update_task_cases sel k Let_def rollback_and_report_ok [OF assms(4)])
  show "commit_error w (filter (\<lambda>r. id' r \<noteq> u) (working s)) = Some e
           \<Longrightarrow> delete_task w s uid tid
               = (Returned (failed ''delete task'' e), s\<lparr>working := committed s\<rparr>)"
    by (simp add: delete_task_cases sel k Let_def rollback_and_report_ok [OF assms(4)])
qed

text \<open>
  C3 (as the code has it). With a handler whose rollback does not raise, every mutating
  operation returns an envelope: a success envelope, the not-found envelope, or the
  failure envelope; \<open>list_tasks\<close>, whose handler has no rollback, always returns an
  envelope and never changes the session. The failure envelope has the keys \<open>success\<close>,
  \<open>error\<close>, \<open>message\<close>; the not-found envelope has the keys \<open>success\<close> and \<open>message\<close>
  only. An exception raised before the commit has completed (by the \<open>Task\<close> constructor,
  by the lookup or the query, by the commit itself) is returned in the failure envelope
  with its text, the stored rows are the ones from before the call and the session
  holds no pending write.
\<close>

theorem failures_are_captured:
  "(rollback_error w = None
      \<longrightarrow> (\<exists>env. fst (add_task w s uid ttl descr prio due) = Returned env
             \<and> (lookup env ''success'' = Some (PBool True) \<or> (\<exists>x. env = failed ''add task'' x)))
        \<and> (\<exists>env. fst (complete_task w s uid tid) = Returned env
             \<and> (lookup env ''success'' = Some (PBool True) \<or> env = not_found
                \<or> (\<exists>x. env = failed ''complete task'' x)))
        \<and> (\<exists>env. fst (update_task w s uid tid ttl' descr prio due) = Returned env
             \<and> (lookup env ''success'' = Some (PBool True) \<or> env = not_found
                \<or> (\<exists>x. env = failed ''update task'' x)))
        \<and> (\<exists>env. fst (delete_task w s uid tid) = Returned env
             \<and> (lookup env ''success'' = Some (PBool True) \<or> env = not_found
                \<or> (\<exists>x. env = failed ''delete task'' x))))
   \<and> ((\<exists>env. fst (list_tasks w s uid flt limit) = Returned env
          \<and> (lookup env ''success'' = Some (PBool True) \<or> (\<exists>x. env = failed ''list tasks'' x)))
      \<and> snd (list_tasks w s uid flt limit) = s)
   \<and> (exec_error w = Some e \<or> (exec_error w = None \<and> reject_limit w limit = Some e)
      \<longrightarrow> list_tasks w s uid flt limit = (Returned (failed ''list tasks'' e), s))
   \<and> ((Task_init w (new_task w uid ttl descr prio) = Some e
         \<or> (Task_init w (new_task w uid ttl descr prio) = None
            \<and> commit_error w (working s @ [set_due w due (new_task w uid ttl descr prio)]) = Some e))
        \<and> rollback_error w = None
      \<longrightarrow> add_task w s uid ttl descr prio due
          = (Returned (failed ''add task'' e), s\<lparr>working := committed s\<rparr>))
   \<and> ((exec_error w = Some e \<or> (exec_error w = None \<and> uuid_cast w tid = Inl e))
        \<and> rollback_error w = None
      \<longrightarrow> complete_task w s uid tid
            = (Returned (failed ''complete task'' e), s\<lparr>working := committed s\<rparr>)
          \<and> update_task w s uid tid ttl' descr prio due
            = (Returned (failed ''update task'' e), s\<lparr>working := committed s\<rparr>)
          \<and> delete_task w s uid tid
            = (Returned (failed ''delete task'' e), s\<lparr>working := committed s\<rparr>))
   \<and> (exec_error w = None \<and> uuid_cast w tid = Inr u
        \<and> find (matches u uid) (working s) = Some t \<and> rollback_error w = None
      \<longrightarrow> (commit_error w (map (\<lambda>r. if id' r = u then mark_completed w r else r) (working s))
             = Some e
           \<longrightarrow> complete_task w s uid tid
               = (Returned (failed ''complete task'' e), s\<lparr>working := committed s\<rparr>))
        \<and> (commit_error w (map (\<lambda>r. if id' r = u then update_fields w ttl' descr prio due r else r)
              (working s)) = Some e
           \<longrightarrow> update_task w s uid tid ttl' descr prio due
               = (Returned (failed ''update task'' e), s\<lparr>working := committed s\<rparr>))
        \<and> (commit_error w (filter (\<lambda>r. id' r \<noteq> u) (working s)) = Some e
           \<longrightarrow> delete_task w s uid tid
               = (Returned (failed ''delete task'' e), s\<lparr>working := committed s\<rparr>)))
   \<and> committed (s\<lparr>working := committed s\<rparr>) = committed s
   \<and> working (s\<lparr>working := committed s\<rparr>) = committed s
   \<and> map fst (failed what e) = [''success'', ''error'', ''message'']
   \<and> lookup (failed what e) ''success'' = Some (PBool False)
   \<and> lookup (failed what e) ''error'' = Some (PStr e)
   \<and> map fst not_found = [''success'', ''message'']"
proof (intro conjI impI)
  assume "rollback_error w = None"
  then show "\<exists>env. fst (add_task w s uid ttl descr prio due) = Returned env
             \<and> (lookup env ''success'' = Some (PBool True) \<or> (\<exists>x. env = failed ''add task'' x))"
    and "\<exists>env. fst (complete_task w s uid tid) = Returned env
             \<and> (lookup env ''success'' = Some (PBool True) \<or> env = not_found
                \<or> (\<exists>x. env = failed ''complete task'' x))"
    and "\<exists>env. fst (update_task w s uid tid ttl' descr prio due) = Returned env
             \<and> (lookup env ''success'' = Some (PBool True) \<or> env = not_found
                \<or> (\<exists>x. env = failed ''update task'' x))"
    and "\<exists>env. fst (delete_task w s uid tid) = Returned env
             \<and> (lookup env ''success'' = Some (PBool True) \<or> env = not_found
                \<or> (\<exists>x. env = failed ''delete task'' x))"
    by (rule add_task_outcome complete_task_outcome update_task_outcome delete_task_outcome)+
next
  assume h: "exec_error w = None \<and> uuid_cast w tid = Inr u
        \<and> find (matches u uid) (working s) = Some t \<and> rollback_error w = None"
  note c = commit_raised [of w tid u uid s t]
  show "commit_error w (map (\<lambda>r. if id' r = u then mark_completed w r else r) (working s))
             = Some e
           \<Longrightarrow> complete_task w s uid tid
               = (Returned (failed ''complete task'' e), s\<lparr>working := committed s\<rparr>)"
    using h c(1) by blast
  show "commit_error w (map (\<lambda>r. if id' r = u then update_fields w ttl' descr prio due r else r)
              (working s)) = Some e
           \<Longrightarrow> update_task w s uid tid ttl' descr prio due
               = (Returned (failed ''update task'' e), s\<lparr>working := committed s\<rparr>)"
    using h c(2) by blast
  show "commit_error w (filter (\<lambda>r. id' r \<noteq> u) (working s)) = Some e
           \<Longrightarrow> delete_task w s uid tid
               = (Returned (failed ''delete task'' e), s\<lparr>working := committed s\<rparr>)"
    using h c(3) by blast
qed (simp_all add: list_tasks_outcome list_tasks_raised add_task_raised lookup_raised
    failed_shape not_found_shape)

theorem failures_are_captured_witness:
  "complete_task full_world some_session ''u1'' (uuid_text CHR ''a'')
     = (Returned (failed ''complete task'' ''disk full''), some_session)
   \<and> list_tasks down_world some_session ''u1'' None 20
     = (Returned (failed ''list tasks'' ''database is down''), some_session)
   \<and> add_task strict_world some_session ''u1'' [] None None None
     = (Returned (failed ''add task'' ''title is empty''), some_session)
   \<and> (\<exists>env. fst (delete_task full_world some_session ''u1'' (uuid_text CHR ''a'')) = Returned env)"
proof -
  have clean: "some_session\<lparr>working := committed some_session\<rparr> = some_session"
    by (simp add: some_session_def)
  have full: "exec_error full_world = None" "rollback_error full_world = None"
    "uuid_cast full_world (uuid_text CHR ''a'') = Inr 0xa"
    "commit_error full_world rows = Some ''disk full''" for rows
    by (simp_all add: full_world_def quiet_exec quiet_rollback quiet_cast)
  have down: "exec_error down_world = Some ''database is down''"
    by (simp add: down_world_def)
  have strict: "Task_init strict_world (new_task strict_world ''u1'' [] None None)
                  = Some ''title is empty''" "rollback_error strict_world = None"
    by (simp_all add: strict_world_def new_task_def quiet_rollback)
  have completing:
    "complete_task full_world some_session ''u1'' (uuid_text CHR ''a'')
       = (Returned (failed ''complete task'' ''disk full''),
          some_session\<lparr>working := committed some_session\<rparr>)"
    using failures_are_captured [where w = full_world and s = some_session and uid = "''u1''"
        and tid = "uuid_text CHR ''a''" and u = "0xa" and t = milk and e = "''disk full''",
        THEN conjunct2, THEN conjunct2, THEN conjunct2, THEN conjunct2, THEN conjunct2,
        THEN conjunct1]
      full find_milk
    by simp
  have listing:
    "list_tasks down_world some_session ''u1'' None 20
       = (Returned (failed ''list tasks'' ''database is down''), some_session)"
    using failures_are_captured [where w = down_world and s = some_session and uid = "''u1''"
        and flt = None and limit = 20 and e = "''database is down''",
        THEN conjunct2, THEN conjunct2, THEN conjunct1]
      down
    by simp
  have adding:
    "add_task strict_world some_session ''u1'' [] None None None
       = (Returned (failed ''add task'' ''title is empty''),
          some_session\<lparr>working := committed some_session\<rparr>)"
    using failures_are_captured [where w = strict_world and s = some_session and uid = "''u1''"
        and ttl = "[]" and descr = None and prio = None and due = None
        and e = "''title is empty''",
        THEN conjunct2, THEN conjunct2, THEN conjunct2, THEN conjunct1]
      strict
    by simp
  have deleting:
    "\<exists>env. fst (delete_task full_world some_session ''u1'' (uuid_text CHR ''a'')) = Returned env"
    using failures_are_captured [where w = full_world and s = some_session and uid = "''u1''"
        and tid = "uuid_text CHR ''a''", THEN conjunct1]
      full(2)
    by blast
  show ?thesis
    using completing listing adding deleting by (simp add: clean)
qed

text \<open>
  The claim as stated fails for the failure of not finding the task: the envelope that
  reports it has no \<open>error\<close> key.
\<close>

theorem failures_are_captured_counterexample:
  "complete_task quiet_world some_session ''u1'' (uuid_text CHR ''e'')
     = (Returned not_found, some_session)
   \<and> reported_failure (Returned not_found)
   \<and> map fst not_found = [''success'', ''message'']
   \<and> lookup not_found ''error'' = None"
proof -
  have sel: "select_first quiet_world some_session (uuid_text CHR ''e'') ''u1'' = Inr None"
    by (simp add: select_first_found [OF quiet_exec quiet_cast(4)])
      (simp add: some_session_def matches_def milk_def rent_def walk_def)
  show ?thesis
    by (simp add: complete_task_cases sel reported_failure_simps not_found_shape)
qed

text \<open>
  Two more behaviours of the handlers. A reload that raises after the commit (here the
  \<open>session.refresh\<close> of \<open>add_task\<close>, and the read of \<open>task.id\<close> in \<open>complete_task\<close>) is
  reported by the failure envelope although the write is committed: the rollback comes
  after the commit. A rollback that raises leaves the operation with its exception.
\<close>

lemma reload_raises_after_commit:
  "fst (add_task lost_world empty_session ''u1'' ''buy milk'' None None None)
     = Returned (failed ''add task'' ''connection lost'')
   \<and> map title (committed (snd (add_task lost_world empty_session ''u1'' ''buy milk'' None None None)))
     = [''buy milk'']
   \<and> fst (complete_task lost_world some_session ''u1'' (uuid_text CHR ''a''))
     = Returned (failed ''complete task'' ''connection lost'')
   \<and> map completed (committed (snd (complete_task lost_world some_session ''u1'' (uuid_text CHR ''a''))))
     = [True, True, True]
   \<and> map completed (committed some_session) = [False, True, True]"
proof -
  have lost: "rollback_error lost_world = None" "refresh_error lost_world = Some ''connection lost''"
    "Task_init lost_world t = None" "commit_error lost_world rows = None" for t rows
    by (simp_all add: lost_world_def quiet_world_def)
  have sel: "select_first lost_world some_session (uuid_text CHR ''a'') ''u1'' = Inr (Some milk)"
    by (simp add: select_first_cases lost_world_def quiet_exec quiet_cast find_milk)
  have adding: "add_task lost_world empty_session ''u1'' ''buy milk'' None None None
      = (Returned (failed ''add task'' ''connection lost''),
         \<lparr>committed = [new_task lost_world ''u1'' ''buy milk'' None None],
          working = [new_task lost_world ''u1'' ''buy milk'' None None]\<rparr>)"
    by (simp add: add_task_cases Let_def lost rollback_and_report_ok empty_session_def
        set_due_def when_truthy_def)
  have completing: "complete_task lost_world some_session ''u1'' (uuid_text CHR ''a'')
      = (Returned (failed ''complete task'' ''connection lost''),
         \<lparr>committed = map (\<lambda>r. if id' r = id' milk then mark_completed lost_world r else r)
                         (working some_session),
          working = map (\<lambda>r. if id' r = id' milk then mark_completed lost_world r else r)
                         (working some_session)\<rparr>)"
    by (simp add: complete_task_cases sel Let_def lost rollback_and_report_ok)
  show ?thesis
    by (simp add: adding completing new_task_def)
      (simp add: some_session_def milk_def rent_def walk_def mark_completed_def)
qed

lemma rollback_raises:
  "complete_task stuck_world some_session ''u1'' (uuid_text CHR ''a'')
     = (Raised ''cannot roll back'', some_session)"
  by (simp add: complete_task_cases select_first_cases rollback_and_report_cases
      stuck_world_def down_world_def)

section \<open>A task that is found\<close>

lemma find_modify:
  assumes "\<And>r. id' (f r) = id' r" and "\<And>r. user_id (f r) = user_id r"
  shows "find (matches u uid) (map (\<lambda>r. if id' r = k then f r else r) rows)
           = map_option (\<lambda>r. if id' r = k then f r else r) (find (matches u uid) rows)"
  by (induction rows) (auto simp: matches_def assms)

lemma set_due_unparsable:
  "fromisoformat w (replace_Z due) = None \<Longrightarrow> set_due w (Some due) t = t"
  by (simp add: set_due_def when_truthy_def parse_due_def)

lemma set_due_None: "set_due w None t = t"
  by (simp add: set_due_def when_truthy_def)

lemma set_due_keeps:
  "id' (set_due w due t) = id' t" "user_id (set_due w due t) = user_id t"
  "description (set_due w due t) = description t" "priority (set_due w due t) = priority t"
  "completed (set_due w due t) = completed t" "created_at (set_due w due t) = created_at t"
  "updated_at (set_due w due t) = updated_at t"
  by (simp_all add: set_due_def when_truthy_def parse_due_def split: option.splits)

lemma update_fields_unparsable:
  "fromisoformat w (replace_Z due) = None
     \<Longrightarrow> update_fields w ttl descr prio (Some due) t = update_fields w ttl descr prio None t"
  by (simp add: update_fields_def Let_def set_due_unparsable set_due_None)

lemma update_fields_keeps:
  "id' (update_fields w ttl descr prio due t) = id' t"
  "user_id (update_fields w ttl descr prio due t) = user_id t"
  "completed (update_fields w ttl descr prio due t) = completed t"
  "created_at (update_fields w ttl descr prio due t) = created_at t"
  "updated_at (update_fields w ttl descr prio due t) = utcnow w 0"
  by (simp_all add: update_fields_def Let_def set_due_keeps when_truthy_def split: option.splits)

lemma update_fields_title:
  "title (update_fields w ttl descr prio due t)
     = (case ttl of None \<Rightarrow> title t | Some v \<Rightarrow> if v = [] then title t else v)"
  by (simp add: update_fields_def Let_def title_set_due when_truthy_def split: option.splits)

lemma update_fields_description:
  "description (update_fields w ttl descr prio due t)
     = (case descr of None \<Rightarrow> description t | Some v \<Rightarrow> if v = [] then description t else v)"
  by (simp add: update_fields_def Let_def set_due_keeps when_truthy_def split: option.splits)

lemma update_fields_priority:
  "priority (update_fields w ttl descr prio due t)
     = (case prio of None \<Rightarrow> priority t | Some v \<Rightarrow> if v = [] then priority t else v)"
  by (simp add: update_fields_def Let_def set_due_keeps when_truthy_def split: option.splits)

lemma update_fields_due_date:
  "due_date (update_fields w ttl descr prio due t)
     = (case due of
          None \<Rightarrow> due_date t
        | Some v \<Rightarrow>
            if v = [] then due_date t
            else (case fromisoformat w (replace_Z v) of None \<Rightarrow> due_date t | Some d \<Rightarrow> Some d))"
  by (simp add: update_fields_def Let_def set_due_def parse_due_def when_truthy_def
      split: option.splits)

lemma update_fields_none:
  "update_fields w None None None None r = r\<lparr>updated_at := utcnow w 0\<rparr>"
  by (simp add: update_fields_def set_due_def when_truthy_def)

lemma reported_after_commit:
  "snd (rollback_and_report w \<lparr>committed = rows, working = rows\<rparr> what e)
     = \<lparr>committed = rows, working = rows\<rparr>"
  by (simp add: rollback_and_report_cases split: option.splits)

lemma update_task_found:
  assumes "exec_error w = None" and "uuid_cast w tid = Inr u"
    and "find (matches u uid) (working s) = Some t"
    and "commit_error w (map (\<lambda>r. if id' r = u then update_fields w ttl descr prio due r else r)
           (working s)) = None"
  shows "snd (update_task w s uid tid ttl descr prio due) =
           \<lparr>committed = map (\<lambda>r. if id' r = u then update_fields w ttl descr prio due r else r)
                          (working s),
            working = map (\<lambda>r. if id' r = u then update_fields w ttl descr prio due r else r)
                          (working s)\<rparr>"
    and "refresh_error w = None \<Longrightarrow>
         fst (update_task w s uid tid ttl descr prio due) =
           Returned (done_envelope (str_uuid w u) (title (update_fields w ttl descr prio due t))
                       ''updated successfully'')"
proof -
  have sel: "select_first w s tid uid = Inr (Some t)"
    by (simp add: select_first_found [OF assms(1,2)] assms(3))
  have k: "id' t = u"
    using assms(3) by (simp add: find_matches_Some)
  show "snd (update_task w s uid tid ttl descr prio due) =
           \<lparr>committed = map (\<lambda>r. if id' r = u then update_fields w ttl descr prio due r else r)
                          (working s),
            working = map (\<lambda>r. if id' r = u then update_fields w ttl descr prio due r else r)
                          (working s)\<rparr>"
    using assms(4)
    by (simp add: update_task_cases sel k Let_def reported_after_commit split: option.splits)
  show "refresh_error w = None \<Longrightarrow>
         fst (update_task w s uid tid ttl descr prio due) =
           Returned (done_envelope (str_uuid w u) (title (update_fields w ttl descr prio due t))
                       ''updated successfully'')"
    using assms(4) by (simp add: update_task_cases sel k Let_def update_fields_keeps)
qed

lemma find_after_update:
  assumes "find (matches u uid) rows = Some t"
  shows "find (matches u uid)
           (map (\<lambda>r. if id' r = u then update_fields w ttl descr prio due r else r) rows)
         = Some (update_fields w ttl descr prio due t)"
proof -
  have "id' t = u" using assms by (simp add: find_matches_Some)
  then show ?thesis using assms by (simp add: find_modify update_fields_keeps)
qed

lemma complete_task_found:
  assumes "exec_error w = None" and "uuid_cast w tid = Inr u"
    and "find (matches u uid) (working s) = Some t"
    and "commit_error w (map (\<lambda>r. if id' r = u then mark_completed w r else r) (working s)) = None"
  shows "snd (complete_task w s uid tid) =
           \<lparr>committed = map (\<lambda>r. if id' r = u then mark_completed w r else r) (working s),
            working = map (\<lambda>r. if id' r = u then mark_completed w r else r) (working s)\<rparr>"
    and "refresh_error w = None \<Longrightarrow>
         fst (complete_task w s uid tid) =
           Returned (done_envelope (str_uuid w u) (title t) ''marked as completed'')"
proof -
  have sel: "select_first w s tid uid = Inr (Some t)"
    by (simp add: select_first_found [OF assms(1,2)] assms(3))
  have k: "id' t = u"
    using assms(3) by (simp add: find_matches_Some)
  show "snd (complete_task w s uid tid) =
           \<lparr>committed = map (\<lambda>r. if id' r = u then mark_completed w r else r) (working s),
            working = map (\<lambda>r. if id' r = u then mark_completed w r else r) (working s)\<rparr>"
    using assms(4)
    by (simp add: complete_task_cases sel k Let_def reported_after_commit split: option.splits)
  show "refresh_error w = None \<Longrightarrow>
         fst (complete_task w s uid tid) =
           Returned (done_envelope (str_uuid w u) (title t) ''marked as completed'')"
    using assms(4) by (simp add: complete_task_cases sel k Let_def)
qed

lemma find_after_complete:
  assumes "find (matches u uid) rows = Some t"
  shows "find (matches u uid) (map (\<lambda>r. if id' r = u then mark_completed w r else r) rows)
         = Some (mark_completed w t)"
proof -
  have "id' t = u" using assms by (simp add: find_matches_Some)
  then show ?thesis using assms by (simp add: find_modify mark_completed_def)
qed

lemma update_task_succeeded:
  assumes "succeeded (fst (update_task w s uid tid ttl descr prio due))"
  shows "\<exists>u t. uuid_cast w tid = Inr u \<and> find (matches u uid) (working s) = Some t
             \<and> committed (snd (update_task w s uid tid ttl descr prio due))
               = map (\<lambda>r. if id' r = u then update_fields w ttl descr prio due r else r) (working s)"
  using assms
  by (auto simp: update_task_cases select_first_cases Let_def not_succeeded_report
      succeeded_simps dest: find_matches_Some split: option.splits sum.splits)

text \<open>A stored task is found through any spelling of its id that is cast to its UUID.\<close>

lemma other_spelling_found:
  "fst (complete_task quiet_world some_session ''u1'' (uuid_text CHR ''A''))
     = Returned (done_envelope (uuid_text CHR ''a'') ''buy milk'' ''marked as completed'')"
proof -
  have str: "str_uuid quiet_world 0xa = uuid_text CHR ''a''" and ttl: "title milk = ''buy milk''"
    by (simp_all add: quiet_world_def demo_str_def milk_def)
  show ?thesis
    using complete_task_found(2) [OF quiet_exec quiet_cast(2) find_milk quiet_commit quiet_refresh]
    by (simp add: str ttl)
qed

section \<open>A due date that does not parse\<close>

text \<open>
  C4. A due date whose text \<open>fromisoformat\<close> rejects is ignored by \<open>add_task\<close> and by
  \<open>update_task\<close>: the call behaves exactly as with the due date omitted. When no
  collaborator raises, \<open>add_task\<close> then succeeds and stores the task without a due date,
  and \<open>update_task\<close> on a found task succeeds and leaves its due date as it was.
\<close>

theorem unparsable_due_ignored:
  "(fromisoformat w (replace_Z due) = None
      \<longrightarrow> add_task w s uid ttl descr prio (Some due) = add_task w s uid ttl descr prio None
        \<and> update_task w s uid tid ttl' descr prio (Some due)
          = update_task w s uid tid ttl' descr prio None)
   \<and> (fromisoformat w (replace_Z due) = None \<and> no_faults w
      \<longrightarrow> add_task w s uid ttl descr prio (Some due)
          = (Returned (added w (new_task w uid ttl descr prio) ttl),
             \<lparr>committed = working s @ [new_task w uid ttl descr prio],
              working = working s @ [new_task w uid ttl descr prio]\<rparr>)
        \<and> due_date (new_task w uid ttl descr prio) = None)
   \<and> (fromisoformat w (replace_Z due) = None \<and> no_faults w
        \<and> uuid_cast w tid = Inr u \<and> find (matches u uid) (working s) = Some t
      \<longrightarrow> succeeded (fst (update_task w s uid tid ttl' descr prio (Some due)))
        \<and> map_option due_date
            (find (matches u uid)
               (committed (snd (update_task w s uid tid ttl' descr prio (Some due)))))
          = Some (due_date t))"
proof (intro conjI impI)
  assume bad: "fromisoformat w (replace_Z due) = None"
  show "add_task w s uid ttl descr prio (Some due) = add_task w s uid ttl descr prio None"
    by (simp add: add_task_cases set_due_unparsable [OF bad] set_due_None)
  show "update_task w s uid tid ttl' descr prio (Some due)
          = update_task w s uid tid ttl' descr prio None"
    by (simp add: update_task_cases update_fields_unparsable [OF bad]
        cong: if_cong option.case_cong sum.case_cong)
next
  assume h: "fromisoformat w (replace_Z due) = None \<and> no_faults w"
  then show "add_task w s uid ttl descr prio (Some due)
          = (Returned (added w (new_task w uid ttl descr prio) ttl),
             \<lparr>committed = working s @ [new_task w uid ttl descr prio],
              working = working s @ [new_task w uid ttl descr prio]\<rparr>)"
    by (simp add: add_task_cases Let_def set_due_unparsable no_faults_simps)
  show "due_date (new_task w uid ttl descr prio) = None"
    by (simp add: new_task_def)
next
  assume h: "fromisoformat w (replace_Z due) = None \<and> no_faults w
        \<and> uuid_cast w tid = Inr u \<and> find (matches u uid) (working s) = Some t"
  note run = update_task_found [where w = w and tid = tid and u = u and uid = uid and s = s
      and t = t and ttl = ttl' and descr = descr and prio = prio and due = "Some due"]
  have st: "snd (update_task w s uid tid ttl' descr prio (Some due)) =
       \<lparr>committed = map (\<lambda>r. if id' r = u then update_fields w ttl' descr prio (Some due) r else r)
                        (working s),
        working = map (\<lambda>r. if id' r = u then update_fields w ttl' descr prio (Some due) r else r)
                        (working s)\<rparr>"
    using h by (intro run(1)) (simp_all add: no_faults_simps)
  have env: "fst (update_task w s uid tid ttl' descr prio (Some due)) =
       Returned (done_envelope (str_uuid w u)
                   (title (update_fields w ttl' descr prio (Some due) t)) ''updated successfully'')"
    using h by (intro run(2)) (simp_all add: no_faults_simps)
  show "succeeded (fst (update_task w s uid tid ttl' descr prio (Some due)))"
    by (simp add: env succeeded_simps)
  show "map_option due_date
            (find (matches u uid)
               (committed (snd (update_task w s uid tid ttl' descr prio (Some due)))))
          = Some (due_date t)"
    using h by (simp add: st find_after_update update_fields_due_date)
qed

theorem unparsable_due_ignored_witness:
  "add_task quiet_world some_session ''u1'' ''call mum'' None None (Some ''tomorrow'')
     = add_task quiet_world some_session ''u1'' ''call mum'' None None None
   \<and> succeeded (fst (update_task quiet_world some_session ''u1'' (uuid_text CHR ''a'') None None
                        None (Some ''tomorrow'')))
   \<and> map_option due_date
        (find (matches 0xa ''u1'')
           (committed (snd (update_task quiet_world some_session ''u1'' (uuid_text CHR ''a'')
                              None None None (Some ''tomorrow'')))))
     = Some (Some 50)"
proof -
  have bad: "fromisoformat quiet_world (replace_Z ''tomorrow'') = None"
    by (simp add: quiet_world_def)
  have due: "due_date milk = Some 50"
    by (simp add: milk_def)
  note inst = unparsable_due_ignored [where w = quiet_world and s = some_session
      and uid = "''u1''" and ttl = "''call mum''" and descr = None and prio = None
      and due = "''tomorrow''" and tid = "uuid_text CHR ''a''" and u = "0xa" and ttl' = None
      and t = milk]
  have same: "add_task quiet_world some_session ''u1'' ''call mum'' None None (Some ''tomorrow'')
     = add_task quiet_world some_session ''u1'' ''call mum'' None None None"
    using inst [THEN conjunct1] bad by simp
  have kept: "succeeded (fst (update_task quiet_world some_session ''u1'' (uuid_text CHR ''a'')
                               None None None (Some ''tomorrow'')))
   \<and> map_option due_date
        (find (matches 0xa ''u1'')
           (committed (snd (update_task quiet_world some_session ''u1'' (uuid_text CHR ''a'')
                              None None None (Some ''tomorrow'')))))
     = Some (due_date milk)"
    using inst [THEN conjunct2, THEN conjunct2] bad quiet_no_faults find_milk quiet_cast(1)
    by simp
  show ?thesis
    using same kept by (simp only: due simp_thms)
qed

section \<open>Partial update\<close>

text \<open>
  C6. On a found task whose query and commit do not raise, \<open>update_task\<close> commits the
  rows with that id changed by \<open>update_fields\<close> and no other row changed, and returns the
  success envelope when the reload does not raise. \<open>update_fields\<close> sets the title, the
  description and the priority only when the argument is given and is not the empty
  string, sets the due date only when its text is non-empty and parses, and leaves the
  id, the owner, the completion flag and the creation time alone: an empty string clears
  nothing and an omitted field stays as it was.
\<close>

theorem update_task_partial:
  "(exec_error w = None \<and> uuid_cast w tid = Inr u
      \<and> find (matches u uid) (working s) = Some t
      \<and> commit_error w
           (map (\<lambda>r. if id' r = u then update_fields w ttl descr prio due r else r) (working s))
          = None
      \<longrightarrow> snd (update_task w s uid tid ttl descr prio due) =
            \<lparr>committed =
               map (\<lambda>r. if id' r = u then update_fields w ttl descr prio due r else r) (working s),
             working =
               map (\<lambda>r. if id' r = u then update_fields w ttl descr prio due r else r) (working s)\<rparr>
          \<and> (refresh_error w = None
             \<longrightarrow> fst (update_task w s uid tid ttl descr prio due) =
                 Returned (done_envelope (str_uuid w u)
                             (title (update_fields w ttl descr prio due t))
                             ''updated successfully''))
          \<and> find (matches u uid)
              (map (\<lambda>r. if id' r = u then update_fields w ttl descr prio due r else r) (working s))
            = Some (update_fields w ttl descr prio due t))
   \<and> title (update_fields w ttl descr prio due r)
       = (case ttl of None \<Rightarrow> title r | Some v \<Rightarrow> if v = [] then title r else v)
   \<and> description (update_fields w ttl descr prio due r)
       = (case descr of None \<Rightarrow> description r | Some v \<Rightarrow> if v = [] then description r else v)
   \<and> priority (update_fields w ttl descr prio due r)
       = (case prio of None \<Rightarrow> priority r | Some v \<Rightarrow> if v = [] then priority r else v)
   \<and> due_date (update_fields w ttl descr prio due r)
       = (case due of
            None \<Rightarrow> due_date r
          | Some v \<Rightarrow>
              if v = [] then due_date r
              else (case fromisoformat w (replace_Z v) of None \<Rightarrow> due_date r | Some d \<Rightarrow> Some d))
   \<and> id' (update_fields w ttl descr prio due r) = id' r
   \<and> user_id (update_fields w ttl descr prio due r) = user_id r
   \<and> completed (update_fields w ttl descr prio due r) = completed r
   \<and> created_at (update_fields w ttl descr prio due r) = created_at r"
proof (intro conjI impI)
  assume h: "exec_error w = None \<and> uuid_cast w tid = Inr u
      \<and> find (matches u uid) (working s) = Some t
      \<and> commit_error w
           (map (\<lambda>r. if id' r = u then update_fields w ttl descr prio due r else r) (working s))
          = None"
  note run = update_task_found [where w = w and tid = tid and u = u and uid = uid and s = s
      and t = t and ttl = ttl and descr = descr and prio = prio and due = due]
  show "snd (update_task w s uid tid ttl descr prio due) =
            \<lparr>committed =
               map (\<lambda>r. if id' r = u then update_fields w ttl descr prio due r else r) (working s),
             working =
               map (\<lambda>r. if id' r = u then update_fields w ttl descr prio due r else r) (working s)\<rparr>"
    using h by (intro run(1)) simp_all
  show "fst (update_task w s uid tid ttl descr prio due) =
                 Returned (done_envelope (str_uuid w u)
                             (title (update_fields w ttl descr prio due t))
                             ''updated successfully'')"
    if "refresh_error w = None"
    using h that by (intro run(2)) simp_all
  show "find (matches u uid)
              (map (\<lambda>r. if id' r = u then update_fields w ttl descr prio due r else r) (working s))
            = Some (update_fields w ttl descr prio due t)"
    using h by (simp add: find_after_update)
qed (rule update_fields_title update_fields_description update_fields_priority
    update_fields_due_date update_fields_keeps)+

theorem update_task_partial_witness:
  "find (matches 0xa ''u1'')
     (committed (snd (update_task quiet_world some_session ''u1'' (uuid_text CHR ''a'') (Some [])
                        None (Some ''high'') (Some []))))
   = Some (milk\<lparr>priority := ''high'', updated_at := 1000\<rparr>)
   \<and> succeeded (fst (update_task quiet_world some_session ''u1'' (uuid_text CHR ''a'') (Some [])
                        None (Some ''high'') (Some [])))"
proof -
  have eq: "update_fields quiet_world (Some []) None (Some ''high'') (Some []) milk
              = milk\<lparr>priority := ''high'', updated_at := 1000\<rparr>"
    by (simp add: update_fields_def set_due_def when_truthy_def quiet_world_def)
  show ?thesis
    using update_task_partial [where w = quiet_world and s = some_session and uid = "''u1''"
        and tid = "uuid_text CHR ''a''" and u = "0xa" and ttl = "Some []" and descr = None
        and prio = "Some ''high''" and due = "Some []" and t = milk, THEN conjunct1]
      find_milk quiet_exec quiet_commit quiet_cast(1) quiet_refresh
    by (simp add: eq succeeded_simps)
qed

section \<open>Completing twice\<close>

text \<open>
  C7. For a task found for the caller, with no collaborator raising, \<open>complete_task\<close>
  called twice succeeds both times and the task is completed after each call; the second
  call changes nothing but the update time.
\<close>

theorem complete_task_twice:
  "uuid_cast w1 tid = Inr u \<and> uuid_cast w2 tid = Inr u
   \<and> find (matches u uid) (working s) = Some t \<and> no_faults w1 \<and> no_faults w2
   \<longrightarrow> succeeded (fst (complete_task w1 s uid tid))
     \<and> map_option completed
         (find (matches u uid) (committed (snd (complete_task w1 s uid tid)))) = Some True
     \<and> succeeded (fst (complete_task w2 (snd (complete_task w1 s uid tid)) uid tid))
     \<and> map_option completed
         (find (matches u uid)
            (committed (snd (complete_task w2 (snd (complete_task w1 s uid tid)) uid tid))))
       = Some True
     \<and> committed (snd (complete_task w2 (snd (complete_task w1 s uid tid)) uid tid))
       = map (\<lambda>r. if id' r = u then r\<lparr>updated_at := utcnow w2 0\<rparr> else r)
           (committed (snd (complete_task w1 s uid tid)))"
proof (intro impI)
  assume h: "uuid_cast w1 tid = Inr u \<and> uuid_cast w2 tid = Inr u
   \<and> find (matches u uid) (working s) = Some t \<and> no_faults w1 \<and> no_faults w2"
  let ?rows1 = "map (\<lambda>r. if id' r = u then mark_completed w1 r else r) (working s)"
  let ?rows2 = "map (\<lambda>r. if id' r = u then mark_completed w2 r else r) ?rows1"
  note one = complete_task_found [where w = w1 and tid = tid and u = u and uid = uid
      and s = s and t = t]
  have first: "snd (complete_task w1 s uid tid) = \<lparr>committed = ?rows1, working = ?rows1\<rparr>"
    using h by (intro one(1)) (simp_all add: no_faults_simps)
  have first_ok: "succeeded (fst (complete_task w1 s uid tid))"
    using h one(2) by (simp add: no_faults_simps succeeded_simps)
  have found1: "find (matches u uid) ?rows1 = Some (mark_completed w1 t)"
    using h by (simp add: find_after_complete)
  note two = complete_task_found [where w = w2 and tid = tid and u = u and uid = uid
      and s = "\<lparr>committed = ?rows1, working = ?rows1\<rparr>" and t = "mark_completed w1 t"]
  have second: "snd (complete_task w2 \<lparr>committed = ?rows1, working = ?rows1\<rparr> uid tid)
      = \<lparr>committed = ?rows2, working = ?rows2\<rparr>"
    using h found1 two(1) by (simp add: no_faults_simps)
  have second_ok: "succeeded (fst (complete_task w2 \<lparr>committed = ?rows1, working = ?rows1\<rparr> uid tid))"
    using h found1 two(2) by (simp add: no_faults_simps succeeded_simps)
  have found2: "find (matches u uid) ?rows2 = Some (mark_completed w2 (mark_completed w1 t))"
    using found1 by (rule find_after_complete)
  have again: "?rows2 = map (\<lambda>r. if id' r = u then r\<lparr>updated_at := utcnow w2 0\<rparr> else r) ?rows1"
    by (simp add: mark_completed_def cong: if_cong)
  show "succeeded (fst (complete_task w1 s uid tid))
     \<and> map_option completed
         (find (matches u uid) (committed (snd (complete_task w1 s uid tid)))) = Some True
     \<and> succeeded (fst (complete_task w2 (snd (complete_task w1 s uid tid)) uid tid))
     \<and> map_option completed
         (find (matches u uid)
            (committed (snd (complete_task w2 (snd (complete_task w1 s uid tid)) uid tid))))
       = Some True
     \<and> committed (snd (complete_task w2 (snd (complete_task w1 s uid tid)) uid tid))
       = map (\<lambda>r. if id' r = u then r\<lparr>updated_at := utcnow w2 0\<rparr> else r)
           (committed (snd (complete_task w1 s uid tid)))"
    unfolding first second
    using first_ok second_ok
    by (simp add: found1 found2 again [symmetric] mark_completed_def del: map_map)
qed

theorem complete_task_twice_witness:
  "succeeded (fst (complete_task quiet_world some_session ''u1'' (uuid_text CHR ''a'')))
   \<and> succeeded (fst (complete_task quiet_world
                        (snd (complete_task quiet_world some_session ''u1'' (uuid_text CHR ''a'')))
                        ''u1'' (uuid_text CHR ''a'')))
   \<and> map_option completed
        (find (matches 0xa ''u1'')
           (committed (snd (complete_task quiet_world
                              (snd (complete_task quiet_world some_session ''u1''
                                      (uuid_text CHR ''a'')))
                              ''u1'' (uuid_text CHR ''a'')))))
      = Some True"
proof -
  note twice = complete_task_twice [where ?w1.0 = quiet_world and ?w2.0 = quiet_world
      and s = some_session and uid = "''u1''" and tid = "uuid_text CHR ''a''" and u = "0xa"
      and t = milk, THEN mp,
      OF conjI [OF quiet_cast(1) conjI [OF quiet_cast(1)
           conjI [OF find_milk conjI [OF quiet_no_faults quiet_no_faults]]]]]
  show ?thesis
    using twice [THEN conjunct1] twice [THEN conjunct2, THEN conjunct2, THEN conjunct1]
      twice [THEN conjunct2, THEN conjunct2, THEN conjunct2, THEN conjunct1]
    by blast
qed

section \<open>An update with no field\<close>

text \<open>
  C10. On a found task whose query, commit and reload do not raise, \<open>update_task\<close> with
  every optional field omitted succeeds and commits, changing only the update time; and
  after every successful \<open>update_task\<close> the update time of the task is the clock reading
  of the call.
\<close>

theorem update_task_touches:
  "(exec_error w = None \<and> uuid_cast w tid = Inr u
      \<and> find (matches u uid) (working s) = Some t
      \<and> commit_error w
           (map (\<lambda>r. if id' r = u then r\<lparr>updated_at := utcnow w 0\<rparr> else r) (working s)) = None
      \<and> refresh_error w = None
      \<longrightarrow> update_task w s uid tid None None None None =
            (Returned (done_envelope (str_uuid w u) (title t) ''updated successfully''),
             \<lparr>committed =
                map (\<lambda>r. if id' r = u then r\<lparr>updated_at := utcnow w 0\<rparr> else r) (working s),
              working =
                map (\<lambda>r. if id' r = u then r\<lparr>updated_at := utcnow w 0\<rparr> else r) (working s)\<rparr>)
          \<and> succeeded (fst (update_task w s uid tid None None None None)))
   \<and> (succeeded (fst (update_task w s uid tid ttl descr prio due))
      \<longrightarrow> (\<exists>k. uuid_cast w tid = Inr k
             \<and> map_option updated_at
                 (find (matches k uid)
                    (committed (snd (update_task w s uid tid ttl descr prio due))))
               = Some (utcnow w 0)))"
proof (intro conjI impI)
  assume h: "exec_error w = None \<and> uuid_cast w tid = Inr u
      \<and> find (matches u uid) (working s) = Some t
      \<and> commit_error w
           (map (\<lambda>r. if id' r = u then r\<lparr>updated_at := utcnow w 0\<rparr> else r) (working s)) = None
      \<and> refresh_error w = None"
  note run = update_task_found [where w = w and tid = tid and u = u and uid = uid and s = s
      and t = t and ttl = None and descr = None and prio = None and due = None]
  have st: "snd (update_task w s uid tid None None None None) =
       \<lparr>committed = map (\<lambda>r. if id' r = u then update_fields w None None None None r else r)
                        (working s),
        working = map (\<lambda>r. if id' r = u then update_fields w None None None None r else r)
                        (working s)\<rparr>"
    using h by (intro run(1)) (simp_all add: update_fields_none cong: if_cong)
  have env: "fst (update_task w s uid tid None None None None)
       = Returned (done_envelope (str_uuid w u) (title (update_fields w None None None None t))
                     ''updated successfully'')"
    using h by (intro run(2)) (simp_all add: update_fields_none cong: if_cong)
  show "update_task w s uid tid None None None None =
            (Returned (done_envelope (str_uuid w u) (title t) ''updated successfully''),
             \<lparr>committed =
                map (\<lambda>r. if id' r = u then r\<lparr>updated_at := utcnow w 0\<rparr> else r) (working s),
              working =
                map (\<lambda>r. if id' r = u then r\<lparr>updated_at := utcnow w 0\<rparr> else r) (working s)\<rparr>)"
    using st env by (simp add: prod_eq_iff update_fields_none cong: if_cong)
  show "succeeded (fst (update_task w s uid tid None None None None))"
    by (simp add: env succeeded_simps)
next
  assume "succeeded (fst (update_task w s uid tid ttl descr prio due))"
  from update_task_succeeded [OF this] obtain k t where
    k: "uuid_cast w tid = Inr k" and
    t: "find (matches k uid) (working s) = Some t" and
    c: "committed (snd (update_task w s uid tid ttl descr prio due))
          = map (\<lambda>r. if id' r = k then update_fields w ttl descr prio due r else r) (working s)"
    by blast
  have "map_option updated_at
            (find (matches k uid)
               (committed (snd (update_task w s uid tid ttl descr prio due))))
          = Some (utcnow w 0)"
    by (simp add: c find_after_update [OF t] update_fields_keeps)
  with k show "\<exists>k. uuid_cast w tid = Inr k
             \<and> map_option updated_at
                 (find (matches k uid)
                    (committed (snd (update_task w s uid tid ttl descr prio due))))
               = Some (utcnow w 0)"
    by blast
qed

theorem update_task_touches_witness:
  "update_task quiet_world some_session ''u1'' (uuid_text CHR ''a'') None None None None =
     (Returned (done_envelope (uuid_text CHR ''a'') ''buy milk'' ''updated successfully''),
      \<lparr>committed = [milk\<lparr>updated_at := 1000\<rparr>, rent, walk],
       working = [milk\<lparr>updated_at := 1000\<rparr>, rent, walk]\<rparr>)
   \<and> map_option updated_at
        (find (matches 0xa ''u1'')
           (committed (snd (update_task quiet_world some_session ''u1'' (uuid_text CHR ''a'')
                              None None None None))))
      = Some 1000"
proof -
  have now: "utcnow quiet_world 0 = 1000"
    by (simp add: quiet_world_def)
  have rows: "map (\<lambda>r. if id' r = 0xa then r\<lparr>updated_at := utcnow quiet_world 0\<rparr> else r)
                  (working some_session)
                = [milk\<lparr>updated_at := 1000\<rparr>, rent, walk]"
    by (simp add: some_session_def milk_def rent_def walk_def quiet_world_def)
  have ttl: "title milk = ''buy milk''" and str: "str_uuid quiet_world 0xa = uuid_text CHR ''a''"
    by (simp_all add: milk_def quiet_world_def demo_str_def)
  note inst = update_task_touches [where w = quiet_world and s = some_session and uid = "''u1''"
      and tid = "uuid_text CHR ''a''" and u = "0xa" and t = milk and ttl = None and descr = None
      and prio = None and due = None]
  have run: "update_task quiet_world some_session ''u1'' (uuid_text CHR ''a'') None None None None =
     (Returned (done_envelope (str_uuid quiet_world 0xa) (title milk) ''updated successfully''),
      \<lparr>committed = [milk\<lparr>updated_at := 1000\<rparr>, rent, walk],
       working = [milk\<lparr>updated_at := 1000\<rparr>, rent, walk]\<rparr>)"
    using inst [THEN conjunct1] find_milk quiet_exec quiet_commit quiet_cast(1) quiet_refresh
    unfolding rows by simp
  have ok: "succeeded (fst (update_task quiet_world some_session ''u1'' (uuid_text CHR ''a'')
                              None None None None))"
    by (simp add: run succeeded_simps)
  have touched: "map_option updated_at
        (find (matches 0xa ''u1'')
           (committed (snd (update_task quiet_world some_session ''u1'' (uuid_text CHR ''a'')
                              None None None None))))
      = Some (utcnow quiet_world 0)"
    using inst [THEN conjunct2] ok quiet_cast(1) by auto
  show ?thesis
    using run touched by (simp only: now ttl str simp_thms)
qed

section \<open>Listing tasks\<close>















section \<open>A turn with a blank message\<close>

lemma dropWhile_all: "(\<forall>c \<in> set (dropWhile P xs). P c) \<longleftrightarrow> (\<forall>c \<in> set xs. P c)"
  by (induction xs) auto

lemma strip_Nil_iff: "strip x = [] \<longleftrightarrow> (\<forall>c \<in> set x. is_space c)"
  by (simp add: strip_def dropWhile_eq_Nil_conv dropWhile_all)

lemma blank_iff: "blank x \<longleftrightarrow> (\<forall>c \<in> set x. is_space c)"
  by (auto simp: blank_def strip_Nil_iff)

text \<open>
  C8. The check of \<open>chat\<close> holds exactly for the empty message and the messages of
  whitespace only. Such a turn is rejected with \<open>InvalidMessageError\<close> whatever the
  store, the conversation id and the agent are, and the store is returned as it was: no
  conversation is created or fetched and no message is stored.
\<close>

theorem blank_message_rejected:
  "blank (message req) = (\<forall>c \<in> set (message req). is_space c)
   \<and> (blank (message req)
      \<longrightarrow> chat w st uid req
          = (Inl (FromChatbotError (InvalidMessageError ''Message cannot be empty'')), st))"
  by (simp add: blank_iff chat_def)

theorem blank_message_rejected_witness:
  "chat echo_world empty_store ''u1'' \<lparr>conversation_id = None, message = [CHR '' '', CHR 0x09]\<rparr>
     = (Inl (FromChatbotError (InvalidMessageError ''Message cannot be empty'')), empty_store)
   \<and> chat echo_world empty_store ''u1'' \<lparr>conversation_id = Some 42, message = []\<rparr>
     = (Inl (FromChatbotError (InvalidMessageError ''Message cannot be empty'')), empty_store)"
proof -
  have a: "blank (message \<lparr>conversation_id = None, message = [CHR '' '', CHR 0x09]\<rparr>)"
    by (simp add: blank_iff is_space_def)
  have b: "blank (message \<lparr>conversation_id = Some 42, message = []\<rparr>)"
    by (simp add: blank_iff)
  show ?thesis
    using blank_message_rejected [where w = echo_world and st = empty_store and uid = "''u1''"
        and req = "\<lparr>conversation_id = None, message = [CHR '' '', CHR 0x09]\<rparr>"]
      blank_message_rejected [where w = echo_world and st = empty_store and uid = "''u1''"
        and req = "\<lparr>conversation_id = Some 42, message = []\<rparr>"]
      a b
    by blast
qed

section \<open>The assistant message of a turn\<close>

lemma resolve_keeps_messages:
  "resolve_conversation w st uid req = Inr (conv, st1) \<Longrightarrow> messages st1 = messages st"
  by (auto simp: resolve_conversation_def create_conversation_def Let_def
      split: option.splits if_splits sum.splits)

lemma hi_not_blank: "\<not> blank (message hi)"
  by (simp add: blank_iff hi_def is_space_def)

lemma hi_resolved:
  "resolve_conversation echo_world empty_store ''u1'' hi
     = Inr (first_conversation, \<lparr>conversations = [first_conversation], messages = []\<rparr>)"
  "resolve_conversation mute_world empty_store ''u1'' hi
     = Inr (first_conversation, \<lparr>conversations = [first_conversation], messages = []\<rparr>)"
  by (simp_all add: resolve_conversation_def create_conversation_def hi_def empty_store_def
      first_conversation_def fresh_id_def echo_world_def mute_world_def Let_def)

text \<open>
  C9. In a turn that passes the check, resolves its conversation and in which the agent
  returns a result, the response carries the agent's text and its tool calls. The store
  after the turn is the store with the user message added and, exactly when the agent's
  text is not empty, the assistant message with that text added after it. So the
  messages stored by the turn are the user message followed by the assistant message if
  the text is not empty, and the user message alone if it is.
\<close>

theorem assistant_message_iff_response:
  "\<not> blank (message req) \<and> resolve_conversation w st uid req = Inr (conv, st1)
   \<and> process_message w (message req)
        (get_conversation_history
           (add_message (stamp w 1) st1 (conv_id conv) ''user'' (message req)) (conv_id conv) 20)
        uid = Inr ai
   \<longrightarrow> fst (chat w st uid req)
         = Inr \<lparr>r_conversation_id = conv_id conv, r_response = response ai,
                r_tool_calls = tool_calls ai, r_response_time = end_time w - start_time w\<rparr>
     \<and> snd (chat w st uid req)
         = (if response ai = []
            then add_message (stamp w 1) st1 (conv_id conv) ''user'' (message req)
            else add_message (stamp w 2)
                   (add_message (stamp w 1) st1 (conv_id conv) ''user'' (message req))
                   (conv_id conv) ''assistant'' (response ai))
     \<and> map shown (messages (snd (chat w st uid req)))
         = map shown (messages st) @ [(conv_id conv, ''user'', message req)]
           @ (if response ai = [] then [] else [(conv_id conv, ''assistant'', response ai)])
     \<and> ((''assistant'' \<in> role ` set (drop (length (messages st)) (messages (snd (chat w st uid req)))))
          = (response ai \<noteq> []))"
proof (intro impI)
  assume h: "\<not> blank (message req) \<and> resolve_conversation w st uid req = Inr (conv, st1)
   \<and> process_message w (message req)
        (get_conversation_history
           (add_message (stamp w 1) st1 (conv_id conv) ''user'' (message req)) (conv_id conv) 20)
        uid = Inr ai"
  then have m: "messages st1 = messages st"
    using resolve_keeps_messages by blast
  have run: "chat w st uid req =
      (Inr \<lparr>r_conversation_id = conv_id conv, r_response = response ai,
             r_tool_calls = tool_calls ai, r_response_time = end_time w - start_time w\<rparr>,
       save_response w (add_message (stamp w 1) st1 (conv_id conv) ''user'' (message req))
         (conv_id conv) ai)"
    using h by (simp add: chat_def Let_def)
  show "fst (chat w st uid req)
         = Inr \<lparr>r_conversation_id = conv_id conv, r_response = response ai,
                r_tool_calls = tool_calls ai, r_response_time = end_time w - start_time w\<rparr>
     \<and> snd (chat w st uid req)
         = (if response ai = []
            then add_message (stamp w 1) st1 (conv_id conv) ''user'' (message req)
            else add_message (stamp w 2)
                   (add_message (stamp w 1) st1 (conv_id conv) ''user'' (message req))
                   (conv_id conv) ''assistant'' (response ai))
     \<and> map shown (messages (snd (chat w st uid req)))
         = map shown (messages st) @ [(conv_id conv, ''user'', message req)]
           @ (if response ai = [] then [] else [(conv_id conv, ''assistant'', response ai)])
     \<and> ((''assistant'' \<in> role ` set (drop (length (messages st)) (messages (snd (chat w st uid req)))))
          = (response ai \<noteq> []))"
    by (simp add: run save_response_def add_message_def m shown_def)
qed

theorem assistant_message_iff_response_witness:
  "map shown (messages (snd (chat echo_world empty_store ''u1'' hi)))
     = [(1, ''user'', ''hi''), (1, ''assistant'', ''Done: hi'')]
   \<and> map shown (messages (snd (chat mute_world empty_store ''u1'' hi)))
     = [(1, ''user'', ''hi'')]
   \<and> fst (chat mute_world empty_store ''u1'' hi)
     = Inr \<lparr>r_conversation_id = 1, r_response = [],
            r_tool_calls = [\<lparr>tool = ''list_tasks'', arguments = [], result = not_found\<rparr>],
            r_response_time = 2\<rparr>"
proof -
  have said: "process_message echo_world m h u
      = Inr \<lparr>response = ''Done: '' @ m, tool_calls = [], response_time = 1\<rparr>" for m h u
    by (simp add: echo_world_def)
  have silent: "process_message mute_world m h u
      = Inr \<lparr>response = [],
             tool_calls = [\<lparr>tool = ''list_tasks'', arguments = [], result = not_found\<rparr>],
             response_time = 1\<rparr>" for m h u
    by (simp add: mute_world_def)
  have facts: "conv_id first_conversation = 1" "message hi = ''hi''"
    "messages empty_store = []" "end_time mute_world - start_time mute_world = 2"
    by (simp_all add: first_conversation_def hi_def empty_store_def mute_world_def)
  note answered =
    assistant_message_iff_response [where w = echo_world and st = empty_store
      and uid = "''u1''" and req = hi, THEN mp,
      OF conjI [OF hi_not_blank conjI [OF hi_resolved(1) said]]]
  note unanswered =
    assistant_message_iff_response [where w = mute_world and st = empty_store
      and uid = "''u1''" and req = hi, THEN mp,
      OF conjI [OF hi_not_blank conjI [OF hi_resolved(2) silent]]]
  show ?thesis
    using answered [THEN conjunct2, THEN conjunct2, THEN conjunct1]
      unanswered [THEN conjunct2, THEN conjunct2, THEN conjunct1]
      unanswered [THEN conjunct1]
    by (simp add: facts)
qed

end
